theory Spec2Isabelle
  imports Main
begin

section \<open>Values of the host language\<close>

text \<open>
  The interview engine is JavaScript: what the language model returns is whatever
  \<^verbatim>\<open>JSON.parse\<close> produced, and a transcript message is an object literal with the
  caller's metadata spread into it. Such values are modelled by \<open>jsv\<close>. Numbers are
  integers here (the levels, counters and identifiers the engine handles are), and an
  object is the list of its own properties in the order they were written.
\<close>

datatype jsv =
    JUndefined
  | JNull
  | JBool bool
  | JNum int
  | JStr string
  | JArr "jsv list"
  | JObj "(string \<times> jsv) list"

text \<open>Truthiness, as \<^verbatim>\<open>if (v)\<close>, \<^verbatim>\<open>!v\<close> and \<^verbatim>\<open>v || d\<close> test it.\<close>

fun truthy :: "jsv \<Rightarrow> bool" where
  "truthy JUndefined = False"
| "truthy JNull = False"
| "truthy (JBool b) = b"
| "truthy (JNum n) = (n \<noteq> 0)"
| "truthy (JStr s) = (s \<noteq> [])"
| "truthy (JArr xs) = True"
| "truthy (JObj kvs) = True"

text \<open>
  \<^verbatim>\<open>v.k\<close> for a value that is neither \<^verbatim>\<open>undefined\<close> nor \<^verbatim>\<open>null\<close>. Only own
  properties are modelled; the handlers read the names \<^verbatim>\<open>role\<close>, \<^verbatim>\<open>metadata\<close>,
  \<^verbatim>\<open>currentTopic\<close>, \<^verbatim>\<open>id\<close>, \<^verbatim>\<open>name\<close>, \<^verbatim>\<open>message\<close>,
  \<^verbatim>\<open>assessmentOfLastAnswer\<close> and \<^verbatim>\<open>isProbing\<close>, none of which a primitive, an array
  or \<^verbatim>\<open>Object.prototype\<close> provides.
\<close>

fun getProp :: "jsv \<Rightarrow> string \<Rightarrow> jsv" where
  "getProp (JObj kvs) k = (case map_of kvs k of Some v \<Rightarrow> v | None \<Rightarrow> JUndefined)"
| "getProp v k = JUndefined"

text \<open>Optional chaining \<^verbatim>\<open>v?.k\<close> and the default \<^verbatim>\<open>v || d\<close>.\<close>

definition optChain :: "jsv \<Rightarrow> string \<Rightarrow> jsv" where
  "optChain v k = (if v = JUndefined \<or> v = JNull then JUndefined else getProp v k)"

definition orElse :: "jsv \<Rightarrow> jsv \<Rightarrow> jsv" where
  "orElse v d = (if truthy v then v else d)"

text \<open>Writing a property: an existing key keeps its place, a new key goes last.\<close>

fun assign :: "string \<Rightarrow> 'v \<Rightarrow> (string \<times> 'v) list \<Rightarrow> (string \<times> 'v) list" where
  "assign k v [] = [(k, v)]"
| "assign k v ((k', v') # kvs) = (if k' = k then (k, v) # kvs else (k', v') # assign k v kvs)"

text \<open>The object spread \<^verbatim>\<open>{ ...base, ...extra }\<close>.\<close>

definition spread :: "(string \<times> jsv) list \<Rightarrow> (string \<times> jsv) list \<Rightarrow> (string \<times> jsv) list" where
  "spread base extra = foldl (\<lambda>acc (k, v). assign k v acc) base extra"

text \<open>Decimal rendering of numbers, as \<^verbatim>\<open>String(n)\<close> gives it for integers.\<close>

function showNat :: "nat \<Rightarrow> string" where
  "showNat n = (if n < 10 then [''0123456789'' ! n]
                else showNat (n div 10) @ [''0123456789'' ! (n mod 10)])"
  by pat_completeness auto
termination
  by (relation "measure id") auto

definition showInt :: "int \<Rightarrow> string" where
  "showInt i = (if i < 0 then CHR ''-'' # showNat (nat (- i)) else showNat (nat i))"

definition joinWith :: "string \<Rightarrow> string list \<Rightarrow> string" where
  "joinWith sep xs = (case xs of [] \<Rightarrow> [] | y # ys \<Rightarrow> foldl (\<lambda>acc z. acc @ sep @ z) y ys)"

text \<open>
  The names every plain object inherits from \<^verbatim>\<open>Object.prototype\<close>. A lookup
  \<^verbatim>\<open>obj[name]\<close> of one of them on an object literal finds the inherited member (a
  function, or the prototype itself) where an own property is missing.
\<close>

definition objectPrototypeMembers :: "string list" where
  "objectPrototypeMembers =
     [''constructor'', ''__defineGetter__'', ''__defineSetter__'', ''hasOwnProperty'',
      ''__lookupGetter__'', ''__lookupSetter__'', ''isPrototypeOf'', ''propertyIsEnumerable'',
      ''toString'', ''valueOf'', ''__proto__'', ''toLocaleString'']"

text \<open>
  Whether the conversion of a value to a string throws, as in a template literal
  \<^verbatim>\<open>`${v}`\<close>. A parsed JSON object with an own \<^verbatim>\<open>toString\<close> property hides the
  inherited method behind a value that cannot be called, and the inherited
  \<^verbatim>\<open>valueOf\<close> returns the object itself: the conversion ends in a
  \<^verbatim>\<open>TypeError\<close>. An array is joined from the conversions of its elements.
\<close>

fun stringifyThrows :: "jsv \<Rightarrow> bool" where
  "stringifyThrows (JObj kvs) = (''toString'' \<in> set (map fst kvs))"
| "stringifyThrows (JArr xs) = (\<exists>x \<in> set xs. stringifyThrows x)"
| "stringifyThrows v = False"

datatype jsError = TypeError

text \<open>
  The property key a value is coerced to in \<^verbatim>\<open>obj[v]\<close>: \<^verbatim>\<open>String(v)\<close>. The
  equations are those of values whose conversion does not throw and of integers below
  \<open>10^21\<close> in absolute value (beyond, the source prints an exponent). The handlers
  coerce one key only, the topic id of a skip.
\<close>

fun toKey :: "jsv \<Rightarrow> string" where
  "toKey JUndefined = ''undefined''"
| "toKey JNull = ''null''"
| "toKey (JBool b) = (if b then ''true'' else ''false'')"
| "toKey (JNum n) = showInt n"
| "toKey (JStr s) = s"
| "toKey (JArr xs) =
     joinWith '','' (map (\<lambda>x. if x = JUndefined \<or> x = JNull then [] else toKey x) xs)"
| "toKey (JObj kvs) = ''[object Object]''"

text \<open>
  The order in which \<^verbatim>\<open>Object.entries\<close> lists the properties of an object: the keys
  that are array indices (canonical decimal numbers below \<open>2^32 - 1\<close>) first, in
  ascending order, then the other keys in the order they were written.
\<close>

definition parseNat :: "string \<Rightarrow> nat" where
  "parseNat k = foldl (\<lambda>acc c. 10 * acc + (of_char c - 48)) 0 k"

definition isArrayIndex :: "string \<Rightarrow> bool" where
  "isArrayIndex k =
     (k \<noteq> [] \<and> list_all (\<lambda>c. c \<in> set ''0123456789'') k \<and>
      (k = ''0'' \<or> take 1 k \<noteq> ''0'') \<and> parseNat k < 4294967295)"

definition objectEntries :: "(string \<times> 'v) list \<Rightarrow> (string \<times> 'v) list" where
  "objectEntries table =
     sort_key (\<lambda>(k, v). parseNat k) (filter (\<lambda>(k, v). isArrayIndex k) table) @
     filter (\<lambda>(k, v). \<not> isArrayIndex k) table"

section \<open>The difficulty tracker\<close>

record adjustment =
  timestamp :: int
  fromLevel :: int
  toLevel :: int
  reason :: string

record difficultyTracker =
  currentLevel :: int
  recentAssessments :: "jsv list"
  adjustmentHistory :: "adjustment list"

definition validAssessments :: "jsv list" where
  "validAssessments = [JStr ''excellent'', JStr ''good'', JStr ''partial'', JStr ''brief'']"

text \<open>
  \<^verbatim>\<open>checkDifficultyAdjustment(tracker)\<close>: \<open>None\<close> is \<^verbatim>\<open>{ shouldAdjust: false }\<close>,
  \<open>Some (direction, reason)\<close> is \<^verbatim>\<open>{ shouldAdjust: true, direction, reason }\<close>.
  In the source the level test is nested inside the count test and a failed level
  test falls through to the next rule; the conjunctions below are that control flow.
\<close>

definition checkDifficultyAdjustment :: "difficultyTracker \<Rightarrow> (int \<times> string) option" where
  "checkDifficultyAdjustment tracker =
     (let recent = recentAssessments tracker in
      if length recent < 2 then None
      else
        let excellentCount = length (filter (\<lambda>a. a = JStr ''excellent'') recent);
            goodCount = length (filter (\<lambda>a. a = JStr ''good'') recent);
            partialCount = length (filter (\<lambda>a. a = JStr ''partial'') recent);
            briefCount = length (filter (\<lambda>a. a = JStr ''brief'') recent)
        in
          if excellentCount \<ge> 2 \<and> currentLevel tracker < 4
          then Some (1, ''Candidate showing strong performance - increasing difficulty'')
          else if (briefCount \<ge> 2 \<or> briefCount + partialCount \<ge> 2) \<and> currentLevel tracker > 1
          then Some (- 1, ''Candidate may need support - decreasing difficulty'')
          else None)"

text \<open>
  \<^verbatim>\<open>tracker.recentAssessments.push(assessment)\<close> followed by one
  \<^verbatim>\<open>shift()\<close> when the length exceeds 3.
\<close>

definition pushAssessment :: "jsv \<Rightarrow> difficultyTracker \<Rightarrow> difficultyTracker" where
  "pushAssessment assessment tracker =
     (let pushed = recentAssessments tracker @ [assessment]
      in tracker\<lparr>recentAssessments := (if length pushed > 3 then tl pushed else pushed)\<rparr>)"

text \<open>
  What \<^verbatim>\<open>updateDifficultyAssessment\<close> does to the tracker of the session it found;
  \<open>now\<close> is the clock reading of \<^verbatim>\<open>new Date()\<close>. For a label outside the valid
  ones the source first prints a warning built from the label, which can throw; that
  is decided in \<open>updateDifficultyAssessment\<close> below, before this function is
  applied, and the first branch here is the return that follows a printed warning.
\<close>

definition updateTracker :: "int \<Rightarrow> jsv \<Rightarrow> difficultyTracker \<Rightarrow> difficultyTracker" where
  "updateTracker now assessment tracker =
     (if assessment \<notin> set validAssessments then tracker
      else
        let t1 = pushAssessment assessment tracker in
        case checkDifficultyAdjustment t1 of
          None \<Rightarrow> t1
        | Some (direction, why) \<Rightarrow>
            let previousLevel = currentLevel t1;
                newLevel = max 1 (min 4 (currentLevel t1 + direction))
            in t1\<lparr>currentLevel := newLevel,
                  adjustmentHistory := adjustmentHistory t1 @
                    [\<lparr>timestamp = now, fromLevel = previousLevel, toLevel = newLevel, reason = why\<rparr>],
                  recentAssessments := []\<rparr>)"

text \<open>Whether a call performs an adjustment: the label is valid and the check says so.\<close>

definition adjusts :: "jsv \<Rightarrow> difficultyTracker \<Rightarrow> bool" where
  "adjusts assessment tracker =
     (assessment \<in> set validAssessments \<and>
      checkDifficultyAdjustment (pushAssessment assessment tracker) \<noteq> None)"

text \<open>A sequence of calls, each with its clock reading.\<close>

definition consumeAll :: "difficultyTracker \<Rightarrow> (int \<times> jsv) list \<Rightarrow> difficultyTracker" where
  "consumeAll tracker calls = foldl (\<lambda>t (now, a). updateTracker now a t) tracker calls"

section \<open>Sessions and the registry of active sessions\<close>

text \<open>
  A role as \<^verbatim>\<open>getRole\<close> reads it from the role file: the level is a number or
  absent, the base level a string or absent. The remaining fields are carried along
  unread.
\<close>

record role =
  roleId :: jsv
  roleName :: jsv
  level :: "int option"
  baseLevel :: "string option"
  roleType :: "string option"
  expectations :: jsv
  focusTopics :: jsv

text \<open>The snapshot \<^verbatim>\<open>session.targetRole\<close>.\<close>

record targetRole =
  targetId :: jsv
  targetName :: jsv
  targetLevel :: int
  targetType :: string
  targetExpectations :: jsv
  targetFocusTopics :: jsv

record duration =
  minutes :: int
  seconds :: int
  formatted :: string

text \<open>
  \<^verbatim>\<open>session.metrics\<close>. A live session has no \<open>sessionDuration\<close> and creates
  \<open>skipsPerTopic\<close> on its first skip; at termination the object is replaced by the
  snapshot \<^verbatim>\<open>{ questionCount, skippedCount, duration }\<close>. \<open>skipsPerTopic\<close> lists
  the counters in the order the keys were first written.
\<close>

record metrics =
  questionCount :: nat
  skippedCount :: nat
  skipsPerTopic :: "(string \<times> nat) list option"
  sessionDuration :: "duration option"

text \<open>
  The summary object: what the model generated, and the four fields the End handler
  attaches to it (\<open>None\<close> when the generated value is a primitive, on which the
  assignments have no effect).
\<close>

record attachment =
  attachedPersona :: jsv
  attachedTargetRole :: "targetRole option"
  attachedTracker :: difficultyTracker
  attachedMetrics :: metrics

record summary =
  generated :: jsv
  attached :: "attachment option"

record session =
  sessionId :: string
  courseId :: jsv
  courseName :: jsv
  selectedTopics :: jsv
  topics :: jsv
  persona :: jsv
  targetRole :: "targetRole option"
  difficultyTracker :: difficultyTracker
  metrics :: metrics
  startTime :: int
  endTime :: "int option"
  messages :: "jsv list"
  sessionSummary :: "summary option"

text \<open>
  Every session is built by \<^verbatim>\<open>createInterviewSession\<close>, with a tracker and with
  metrics; the guards of the source for a session without them
  (\<^verbatim>\<open>!session.difficultyTracker\<close>, \<^verbatim>\<open>!session.metrics\<close>) therefore never fire and
  have no branch here.

  \<^verbatim>\<open>activeSessions\<close> (a \<^verbatim>\<open>Map\<close> keyed by session id) and the sessions of the
  interview file, \<open>None\<close> when the file is missing or unreadable.
\<close>

type_synonym registry = "string \<rightharpoonup> session"

record state =
  activeSessions :: registry
  interviewsFile :: "session list option"

text \<open>
  The value of \<^verbatim>\<open>initialLevel\<close> in \<^verbatim>\<open>createInterviewSession\<close>: a number, or the
  function or object that the lookup of an inherited name yields.
\<close>

datatype levelValue = Level int | NotANumber

definition truthyLevel :: "levelValue \<Rightarrow> bool" where
  "truthyLevel v = (case v of Level n \<Rightarrow> n \<noteq> 0 | NotANumber \<Rightarrow> True)"

text \<open>
  \<^verbatim>\<open>levelMap[name]\<close> on the literal \<^verbatim>\<open>{ junior: 1, mid: 2, senior: 3, lead: 4 }\<close>:
  an own property, an inherited member, or nothing (\<open>None\<close> for \<^verbatim>\<open>undefined\<close>).
\<close>

definition levelMap :: "string \<Rightarrow> levelValue option" where
  "levelMap name =
     (case map_of [(''junior'', 1), (''mid'', 2), (''senior'', 3), (''lead'', 4)] name of
        Some n \<Rightarrow> Some (Level n)
      | None \<Rightarrow> if name \<in> set objectPrototypeMembers then Some NotANumber else None)"

text \<open>
  The level \<^verbatim>\<open>createInterviewSession\<close> starts the tracker at. \<^verbatim>\<open>if (role.level)\<close>
  and \<^verbatim>\<open>else if (role.baseLevel)\<close> are truthiness tests: a level of 0 and an empty
  base level count as absent, and \<^verbatim>\<open>levelMap[...] || 2\<close> defaults a missing entry.
\<close>

definition baseLevelValue :: "role \<Rightarrow> levelValue" where
  "baseLevelValue ro =
     (case baseLevel ro of
        None \<Rightarrow> Level 2
      | Some b \<Rightarrow>
          if b \<noteq> []
          then (case levelMap b of
                  Some v \<Rightarrow> if truthyLevel v then v else Level 2
                | None \<Rightarrow> Level 2)
          else Level 2)"

definition initialLevel :: "role option \<Rightarrow> levelValue" where
  "initialLevel r =
     (case r of
        None \<Rightarrow> Level 2
      | Some ro \<Rightarrow>
          (case level ro of
             Some n \<Rightarrow> if n \<noteq> 0 then Level n else baseLevelValue ro
           | None \<Rightarrow> baseLevelValue ro))"

text \<open>
  \<^verbatim>\<open>createInterviewSession\<close>. The generated id (clock and random suffix) and the
  clock reading are inputs. The tracker of this model holds a number as its level: for
  a role whose initial level is not a number the source creates a session that the
  model cannot represent, and the result is \<open>None\<close>.
\<close>

definition createInterviewSession ::
  "int \<Rightarrow> string \<Rightarrow> jsv \<Rightarrow> jsv \<Rightarrow> jsv \<Rightarrow> jsv \<Rightarrow> jsv \<Rightarrow> role option \<Rightarrow> registry
   \<Rightarrow> registry option"
where
  "createInterviewSession now newId cId cName selected tops pers r reg =
     (case initialLevel r of
        NotANumber \<Rightarrow> None
      | Level initial \<Rightarrow>
          Some (reg(newId \<mapsto>
            \<lparr>sessionId = newId,
             courseId = cId,
             courseName = cName,
             selectedTopics = selected,
             topics = tops,
             persona =
               (if truthy pers
                then JObj [(''id'', getProp pers ''id''), (''name'', getProp pers ''name''),
                           (''style'', getProp pers ''style''),
                           (''focusAreas'', getProp pers ''focusAreas''),
                           (''evaluationWeight'', getProp pers ''evaluationWeight'')]
                else JNull),
             targetRole =
               (case r of
                  None \<Rightarrow> None
                | Some ro \<Rightarrow>
                    Some \<lparr>targetId = roleId ro, targetName = roleName ro,
                          targetLevel =
                            (case level ro of
                               Some n \<Rightarrow> if n \<noteq> 0 then n else initial
                             | None \<Rightarrow> initial),
                          targetType =
                            (case roleType ro of
                               Some ty \<Rightarrow> if ty \<noteq> [] then ty else ''generic''
                             | None \<Rightarrow> ''generic''),
                          targetExpectations = expectations ro,
                          targetFocusTopics = focusTopics ro\<rparr>),
             difficultyTracker =
               \<lparr>currentLevel = initial, recentAssessments = [], adjustmentHistory = []\<rparr>,
             metrics =
               \<lparr>questionCount = 0, skippedCount = 0, skipsPerTopic = None,
                sessionDuration = None\<rparr>,
             startTime = now,
             endTime = None,
             messages = [],
             sessionSummary = None\<rparr>)))"

definition getActiveSession :: "string \<Rightarrow> registry \<Rightarrow> session option" where
  "getActiveSession sid reg = reg sid"

text \<open>
  \<^verbatim>\<open>addMessageToSession\<close>: the message is the object
  \<^verbatim>\<open>{ role, content, timestamp, ...metadata }\<close>; the metadata's properties become
  properties of the message itself.
\<close>

definition addMessageToSession ::
  "int \<Rightarrow> string \<Rightarrow> string \<Rightarrow> jsv \<Rightarrow> (string \<times> jsv) list \<Rightarrow> registry \<Rightarrow> registry"
where
  "addMessageToSession now sid who content metadata reg =
     (case reg sid of
        None \<Rightarrow> reg
      | Some s \<Rightarrow>
          reg(sid \<mapsto> s\<lparr>messages := messages s @
            [JObj (spread [(''role'', JStr who), (''content'', content), (''timestamp'', JNum now)]
                     metadata)]\<rparr>))"

text \<open>
  \<^verbatim>\<open>updateDifficultyAssessment\<close>: an unknown session leaves everything as it is. For
  a label outside the valid ones the warning
  \<^verbatim>\<open>console.warn(`Invalid assessment: ${assessment}`)\<close> is evaluated before the
  return, and the conversion of the label throws for some labels (\<open>Inl\<close>); otherwise
  the tracker of the session is updated in place.
\<close>

definition updateDifficultyAssessment ::
  "int \<Rightarrow> string \<Rightarrow> jsv \<Rightarrow> registry \<Rightarrow> jsError + registry"
where
  "updateDifficultyAssessment now sid assessment reg =
     (case reg sid of
        None \<Rightarrow> Inr reg
      | Some s \<Rightarrow>
          if assessment \<notin> set validAssessments \<and> stringifyThrows assessment
          then Inl TypeError
          else Inr (reg(sid \<mapsto>
                 s\<lparr>difficultyTracker := updateTracker now assessment (difficultyTracker s)\<rparr>)))"

record difficultyContext =
  contextLevel :: int
  levelName :: string
  contextAssessments :: "jsv list"

definition levelNames :: "int \<Rightarrow> string option" where
  "levelNames = map_of [(1, ''Junior''), (2, ''Mid-Level''), (3, ''Senior''), (4, ''Lead'')]"

definition getDifficultyContext :: "string \<Rightarrow> registry \<Rightarrow> difficultyContext" where
  "getDifficultyContext sid reg =
     (case reg sid of
        None \<Rightarrow> \<lparr>contextLevel = 2, levelName = ''Mid-Level'', contextAssessments = []\<rparr>
      | Some s \<Rightarrow>
          \<lparr>contextLevel = currentLevel (difficultyTracker s),
           levelName =
             (case levelNames (currentLevel (difficultyTracker s)) of
                Some n \<Rightarrow> n
              | None \<Rightarrow> ''Mid-Level''),
           contextAssessments = recentAssessments (difficultyTracker s)\<rparr>)"

definition incrementQuestionCount :: "string \<Rightarrow> registry \<Rightarrow> registry" where
  "incrementQuestionCount sid reg =
     (case reg sid of
        None \<Rightarrow> reg
      | Some s \<Rightarrow>
          reg(sid \<mapsto> s\<lparr>metrics := (metrics s)\<lparr>questionCount := questionCount (metrics s) + 1\<rparr>\<rparr>))"

text \<open>
  \<^verbatim>\<open>incrementSkippedCount(sessionId, topicId)\<close>: the per-topic table is created when
  missing, the global counter is incremented, and the counter of the topic too when
  the topic id is truthy. \<open>countSkip\<close> is what the function does to the metrics of
  the session it found. The table holds the numeric counters: under a key that names a
  member of \<^verbatim>\<open>Object.prototype\<close> the source finds the inherited member, adds 1 to
  it and so never stores a number there.
\<close>

definition countSkip :: "jsv \<Rightarrow> metrics \<Rightarrow> metrics" where
  "countSkip topicId m =
     (let table = (case skipsPerTopic m of None \<Rightarrow> [] | Some t \<Rightarrow> t);
          counted = m\<lparr>skipsPerTopic := Some table, skippedCount := skippedCount m + 1\<rparr>
      in if truthy topicId \<and> toKey topicId \<notin> set objectPrototypeMembers
         then counted\<lparr>skipsPerTopic := Some (assign (toKey topicId)
                ((case map_of table (toKey topicId) of Some c \<Rightarrow> c | None \<Rightarrow> 0) + 1)
                table)\<rparr>
         else counted)"

definition incrementSkippedCount :: "string \<Rightarrow> jsv \<Rightarrow> registry \<Rightarrow> registry" where
  "incrementSkippedCount sid topicId reg =
     (case reg sid of
        None \<Rightarrow> reg
      | Some s \<Rightarrow> reg(sid \<mapsto> s\<lparr>metrics := countSkip topicId (metrics s)\<rparr>))"

text \<open>
  \<^verbatim>\<open>getMaxTopicSkips\<close>: the largest counter of the table and the first topic that
  holds it in the order of \<^verbatim>\<open>Object.entries\<close>, \<open>(0, None)\<close> for an unknown session
  or a missing table.
\<close>

definition getMaxTopicSkips :: "string \<Rightarrow> registry \<Rightarrow> nat \<times> string option" where
  "getMaxTopicSkips sid reg =
     (case reg sid of
        None \<Rightarrow> (0, None)
      | Some s \<Rightarrow>
          (case skipsPerTopic (metrics s) of
             None \<Rightarrow> (0, None)
           | Some table \<Rightarrow>
               foldl (\<lambda>(maxSkips, maxTopicId) (topicId, n).
                        if n > maxSkips then (n, Some topicId) else (maxSkips, maxTopicId))
                     (0, None) (objectEntries table)))"

text \<open>The remainder \<^verbatim>\<open>a % b\<close> of JavaScript takes the sign of the dividend.\<close>

definition jsRem :: "int \<Rightarrow> int \<Rightarrow> int" where
  "jsRem a b = (if a < 0 then - ((- a) mod \<bar>b\<bar>) else a mod \<bar>b\<bar>)"

definition padStart2 :: "string \<Rightarrow> string" where
  "padStart2 s = (if length s < 2 then replicate (2 - length s) CHR ''0'' @ s else s)"

definition getSessionMetrics :: "int \<Rightarrow> string \<Rightarrow> registry \<Rightarrow> metrics option" where
  "getSessionMetrics now sid reg =
     (case reg sid of
        None \<Rightarrow> None
      | Some s \<Rightarrow>
          let durationMs = now - startTime s;
              durationMinutes = durationMs div 60000;
              durationSeconds = jsRem durationMs 60000 div 1000
          in Some \<lparr>questionCount = questionCount (metrics s),
                   skippedCount = skippedCount (metrics s),
                   skipsPerTopic = None,
                   sessionDuration = Some \<lparr>minutes = durationMinutes, seconds = durationSeconds,
                     formatted = showInt durationMinutes @ '':'' @ padStart2 (showInt durationSeconds)\<rparr>\<rparr>)"

text \<open>
  \<^verbatim>\<open>getInterviews\<close> of the storage module: a missing or unreadable file reads as no
  sessions.
\<close>

definition getInterviews :: "state \<Rightarrow> session list" where
  "getInterviews st = (case interviewsFile st of None \<Rightarrow> [] | Some l \<Rightarrow> l)"

text \<open>
  What \<^verbatim>\<open>endInterviewSession\<close> does to the session object before saving it: it sets
  \<^verbatim>\<open>endTime\<close> and \<^verbatim>\<open>summary\<close>, and replaces the metrics by those of the summary
  when the summary has some.
\<close>

definition stampEnded :: "int \<Rightarrow> summary \<Rightarrow> session \<Rightarrow> session" where
  "stampEnded now sm s =
     (let stamped = s\<lparr>endTime := Some now, sessionSummary := Some sm\<rparr>
      in case attached sm of
           Some a \<Rightarrow> stamped\<lparr>metrics := attachedMetrics a\<rparr>
         | None \<Rightarrow> stamped)"

text \<open>
  \<^verbatim>\<open>endInterviewSession\<close>. \<open>writeOk\<close> says whether \<^verbatim>\<open>fs.writeFile\<close> succeeds; when
  it throws, the promise is rejected (\<open>Inl\<close>) after the session object was stamped and
  before it is removed from the registry. \<open>Inr None\<close> is the \<^verbatim>\<open>null\<close> returned for an
  unknown id. The file keeps the first 50 sessions of the new list:
  \<^verbatim>\<open>unshift(session)\<close>, then \<^verbatim>\<open>slice(0, 50)\<close>.
\<close>

definition endInterviewSession ::
  "int \<Rightarrow> string \<Rightarrow> summary \<Rightarrow> bool \<Rightarrow> state \<Rightarrow> state \<times> (unit + session option)"
where
  "endInterviewSession now sid sm writeOk st =
     (case activeSessions st sid of
        None \<Rightarrow> (st, Inr None)
      | Some s \<Rightarrow>
          if writeOk
          then (st\<lparr>interviewsFile := Some (take 50 (stampEnded now sm s # getInterviews st)),
                   activeSessions := (activeSessions st)(sid := None)\<rparr>,
                Inr (Some (stampEnded now sm s)))
          else (st\<lparr>activeSessions := (activeSessions st)(sid \<mapsto> stampEnded now sm s)\<rparr>,
                Inl ()))"

section \<open>The interview routes\<close>

text \<open>
  What a handler answers: an error status with its message, or the JSON body of the
  transition.
\<close>

record startResponse =
  startSessionId :: string
  startMessage :: jsv
  startTopic :: jsv
  startPersona :: jsv
  startTargetRole :: "targetRole option"
  startDifficultyLevel :: int

record respondResponse =
  respondMessage :: jsv
  respondTopic :: jsv
  assessment :: jsv
  difficultyLevel :: int
  difficultyName :: string
  respondMetrics :: "metrics option"

text \<open>
  The auto-terminate signal. Its \<^verbatim>\<open>message\<close> is a fixed sentence around the topic
  name; the signal carries the name.
\<close>

record autoEndResponse =
  autoEnd :: bool
  autoEndReason :: string
  autoEndTopicName :: jsv
  autoEndSkippedCount :: nat
  autoEndTopicId :: "string option"

datatype response =
    Status400 string
  | Status404 string
  | Status500 string
  | StartJson startResponse
  | RespondJson respondResponse
  | AutoEndJson autoEndResponse
  | EndJson summary

definition MAX_SKIPS_BEFORE_END :: nat where
  "MAX_SKIPS_BEFORE_END = 3"

text \<open>
  The Start handler from the creation of the session on (the eligibility checks before
  it answer without touching the registry). \<open>opening\<close> is the outcome of the awaited
  \<^verbatim>\<open>groq.startInterview\<close>: \<open>None\<close> when it throws, otherwise the parsed JSON.
  Reading a property of \<^verbatim>\<open>null\<close> throws as well, and every throw is answered by
  the handler's \<^verbatim>\<open>catch\<close>. The result is \<open>None\<close> where
  \<open>createInterviewSession\<close> is: for a role whose initial level is not a number.
\<close>

definition routeStart ::
  "int \<Rightarrow> string \<Rightarrow> jsv \<Rightarrow> jsv \<Rightarrow> jsv \<Rightarrow> jsv \<Rightarrow> jsv \<Rightarrow> role option \<Rightarrow> jsv option \<Rightarrow> state
   \<Rightarrow> (state \<times> response) option"
where
  "routeStart now newId cId cName selected tops pers r opening st =
     (case createInterviewSession now newId cId cName selected tops pers r (activeSessions st) of
        None \<Rightarrow> None
      | Some reg1 \<Rightarrow>
          Some
            (let difficulty = getDifficultyContext newId reg1
             in case opening of
                  None \<Rightarrow> (st\<lparr>activeSessions := reg1\<rparr>, Status500 ''Failed to start interview'')
                | Some answer \<Rightarrow>
                    if answer = JNull \<or> answer = JUndefined
                    then (st\<lparr>activeSessions := reg1\<rparr>, Status500 ''Failed to start interview'')
                    else
                      let reg2 = addMessageToSession now newId ''interviewer''
                                   (getProp answer ''message'')
                                   [(''currentTopic'', getProp answer ''currentTopic'')] reg1;
                          reg3 = incrementQuestionCount newId reg2
                      in (st\<lparr>activeSessions := reg3\<rparr>,
                          StartJson
                            \<lparr>startSessionId = newId,
                             startMessage = getProp answer ''message'',
                             startTopic = getProp answer ''currentTopic'',
                             startPersona =
                               (case reg1 newId of Some s \<Rightarrow> persona s | None \<Rightarrow> JNull),
                             startTargetRole =
                               (case reg1 newId of Some s \<Rightarrow> targetRole s | None \<Rightarrow> None),
                             startDifficultyLevel = contextLevel difficulty\<rparr>)))"

text \<open>The body of a Respond request.\<close>

record respondRequest =
  requestSessionId :: jsv
  requestMessage :: jsv
  requestSkipped :: jsv

text \<open>
  \<^verbatim>\<open>[...session.messages].reverse().find(m => m.role === 'interviewer')\<close>, with
  \<^verbatim>\<open>undefined\<close> when there is none.
\<close>

definition lastInterviewerMsg :: "session \<Rightarrow> jsv" where
  "lastInterviewerMsg s =
     (case find (\<lambda>m. getProp m ''role'' = JStr ''interviewer'') (rev (messages s)) of
        Some m \<Rightarrow> m
      | None \<Rightarrow> JUndefined)"

text \<open>
  \<^verbatim>\<open>lastInterviewerMsg?.metadata?.currentTopic?.id || null\<close> and the topic name read
  along the same path.
\<close>

definition currentTopicId :: "session \<Rightarrow> jsv" where
  "currentTopicId s =
     orElse (optChain (optChain (optChain (lastInterviewerMsg s) ''metadata'') ''currentTopic'') ''id'')
       JNull"

definition currentTopicName :: "session \<Rightarrow> jsv" where
  "currentTopicName s =
     orElse (optChain (optChain (optChain (lastInterviewerMsg s) ''metadata'') ''currentTopic'') ''name'')
       (JStr ''this topic'')"

text \<open>
  The Respond handler. \<open>answer\<close> is the outcome of the awaited course lookup and
  \<^verbatim>\<open>groq.continueInterview\<close>: \<open>None\<close> when one of them throws, otherwise the parsed
  JSON of the model. The registry only holds string keys, so an id that is not a string
  finds no session. A throw of \<^verbatim>\<open>updateDifficultyAssessment\<close> is answered by the
  handler's \<^verbatim>\<open>catch\<close> like any other.
\<close>

definition routeRespond :: "int \<Rightarrow> respondRequest \<Rightarrow> jsv option \<Rightarrow> state \<Rightarrow> state \<times> response" where
  "routeRespond now req answer st =
     (if \<not> truthy (requestSessionId req) \<or> \<not> truthy (requestMessage req)
      then (st, Status400 ''Session ID and message are required'')
      else
        case (case requestSessionId req of
                JStr sid \<Rightarrow> map_option (\<lambda>s. (sid, s)) (getActiveSession sid (activeSessions st))
              | _ \<Rightarrow> None) of
          None \<Rightarrow> (st, Status404 ''Interview session not found or expired'')
        | Some (sid, s) \<Rightarrow>
            let skipped = truthy (requestSkipped req);
                reg1 = (if skipped
                        then incrementSkippedCount sid (currentTopicId s) (activeSessions st)
                        else activeSessions st);
                topicSkipInfo = getMaxTopicSkips sid reg1
            in
              if skipped \<and> fst topicSkipInfo \<ge> MAX_SKIPS_BEFORE_END
              then (st\<lparr>activeSessions := reg1\<rparr>,
                    AutoEndJson
                      \<lparr>autoEnd = True,
                       autoEndReason = ''topic_skip_limit'',
                       autoEndTopicName = currentTopicName s,
                       autoEndSkippedCount =
                         (case getSessionMetrics now sid reg1 of
                            Some m \<Rightarrow> skippedCount m
                          | None \<Rightarrow> 0),
                       autoEndTopicId = snd topicSkipInfo\<rparr>)
              else
                let reg2 = addMessageToSession now sid ''user'' (requestMessage req)
                             [(''skipped'', JBool skipped)] reg1
                in
                  case answer of
                    None \<Rightarrow> (st\<lparr>activeSessions := reg2\<rparr>, Status500 ''Failed to get response'')
                  | Some ans \<Rightarrow>
                      if ans = JNull \<or> ans = JUndefined
                      then (st\<lparr>activeSessions := reg2\<rparr>, Status500 ''Failed to get response'')
                      else
                        let label = getProp ans ''assessmentOfLastAnswer''
                        in
                          case (if truthy label \<and> \<not> skipped
                                then updateDifficultyAssessment now sid label reg2
                                else Inr reg2) of
                            Inl thrown \<Rightarrow>
                              (st\<lparr>activeSessions := reg2\<rparr>, Status500 ''Failed to get response'')
                          | Inr reg3 \<Rightarrow>
                              let updatedDifficulty = getDifficultyContext sid reg3;
                                  reg4 = (if \<not> truthy (getProp ans ''isProbing'')
                                          then incrementQuestionCount sid reg3
                                          else reg3);
                                  reg5 = addMessageToSession now sid ''interviewer''
                                           (getProp ans ''message'')
                                           [(''currentTopic'', getProp ans ''currentTopic''),
                                            (''assessmentOfLastAnswer'', label),
                                            (''isProbing'', getProp ans ''isProbing'')] reg4
                              in (st\<lparr>activeSessions := reg5\<rparr>,
                                  RespondJson
                                    \<lparr>respondMessage = getProp ans ''message'',
                                     respondTopic = getProp ans ''currentTopic'',
                                     assessment = label,
                                     difficultyLevel = contextLevel updatedDifficulty,
                                     difficultyName = levelName updatedDifficulty,
                                     respondMetrics = getSessionMetrics now sid reg5\<rparr>))"

text \<open>
  The End handler. \<open>answer\<close> is the outcome of the awaited course lookup and
  \<^verbatim>\<open>groq.endInterview\<close>; assigning a property to \<^verbatim>\<open>null\<close> throws, assigning one to
  another primitive does nothing.
\<close>

definition isObject :: "jsv \<Rightarrow> bool" where
  "isObject v = (case v of JObj kvs \<Rightarrow> True | JArr xs \<Rightarrow> True | _ \<Rightarrow> False)"

text \<open>
  The summary the handler passes on: the generated value with the persona, the target
  role, the tracker and the metrics snapshot of the session attached.
\<close>

definition augmentSummary :: "jsv \<Rightarrow> session \<Rightarrow> metrics option \<Rightarrow> summary" where
  "augmentSummary ans s snapshot =
     \<lparr>generated = ans,
      attached =
        (if isObject ans
         then map_option
                (\<lambda>m. \<lparr>attachedPersona = persona s,
                       attachedTargetRole = targetRole s,
                       attachedTracker = difficultyTracker s,
                       attachedMetrics = m\<rparr>)
                snapshot
         else None)\<rparr>"

definition routeEnd :: "int \<Rightarrow> jsv \<Rightarrow> jsv option \<Rightarrow> bool \<Rightarrow> state \<Rightarrow> state \<times> response" where
  "routeEnd now reqSessionId answer writeOk st =
     (if \<not> truthy reqSessionId
      then (st, Status400 ''Session ID is required'')
      else
        case (case reqSessionId of
                JStr sid \<Rightarrow> map_option (\<lambda>s. (sid, s)) (getActiveSession sid (activeSessions st))
              | _ \<Rightarrow> None) of
          None \<Rightarrow> (st, Status404 ''Interview session not found or expired'')
        | Some (sid, s) \<Rightarrow>
            (case answer of
               None \<Rightarrow> (st, Status500 ''Failed to generate summary'')
             | Some ans \<Rightarrow>
                 if ans = JNull \<or> ans = JUndefined
                 then (st, Status500 ''Failed to generate summary'')
                 else
                   let sm = augmentSummary ans s (getSessionMetrics now sid (activeSessions st))
                   in (case endInterviewSession now sid sm writeOk st of
                         (st', Inl _) \<Rightarrow> (st', Status500 ''Failed to generate summary'')
                       | (st', Inr _) \<Rightarrow> (st', EndJson sm))))"

section \<open>Reference formulations\<close>

text \<open>
  The invariant of the data model: the level is one of 1..4 and the window holds at
  most three labels.
\<close>

definition trackerInv :: "difficultyTracker \<Rightarrow> bool" where
  "trackerInv t =
     (1 \<le> currentLevel t \<and> currentLevel t \<le> 4 \<and> length (recentAssessments t) \<le> 3)"


definition countLabel :: "string \<Rightarrow> jsv list \<Rightarrow> nat" where
  "countLabel l w = length (filter (\<lambda>a. a = JStr l) w)"

definition increaseReason :: string where
  "increaseReason = ''Candidate showing strong performance - increasing difficulty''"



text \<open>
  The initial level as the specification words it: the numeric level of the role when
  present, otherwise the base level mapped by junior 1, mid 2, senior 3, lead 4 (2 for
  any other string), and 2 without a role.
\<close>

definition specInitialLevel :: "role option \<Rightarrow> int" where
  "specInitialLevel r =
     (case r of
        None \<Rightarrow> 2
      | Some ro \<Rightarrow>
          (case level ro of
             Some n \<Rightarrow> n
           | None \<Rightarrow>
               (case baseLevel ro of
                  None \<Rightarrow> 2
                | Some b \<Rightarrow>
                    if b = ''junior'' then 1
                    else if b = ''mid'' then 2
                    else if b = ''senior'' then 3
                    else if b = ''lead'' then 4
                    else 2)))"

text \<open>
  The initial level with the truthiness of the source's tests written into it: a level
  of 0 counts as absent, and so does an empty base level.
\<close>

definition amendedInitialLevel :: "role option \<Rightarrow> int" where
  "amendedInitialLevel r =
     (case r of
        None \<Rightarrow> 2
      | Some ro \<Rightarrow>
          if (case level ro of Some n \<Rightarrow> n \<noteq> 0 | None \<Rightarrow> False)
          then (case level ro of Some n \<Rightarrow> n | None \<Rightarrow> 2)
          else
            (case baseLevel ro of
               None \<Rightarrow> 2
             | Some b \<Rightarrow>
                 if b = ''junior'' then 1
                 else if b = ''mid'' then 2
                 else if b = ''senior'' then 3
                 else if b = ''lead'' then 4
                 else 2))"

text \<open>
  The transcript entry the Respond handler writes for the user's utterance:
  \<^verbatim>\<open>{ role: 'user', content: message, timestamp, skipped: !!skipped }\<close>.
\<close>

definition userMessage :: "int \<Rightarrow> jsv \<Rightarrow> bool \<Rightarrow> jsv" where
  "userMessage now msg skipped =
     JObj [(''role'', JStr ''user''), (''content'', msg), (''timestamp'', JNum now),
           (''skipped'', JBool skipped)]"

text \<open>
  Two properties of a session as the handlers build it: no message of the transcript
  has a \<^verbatim>\<open>metadata\<close> property (so the topic lookup of a skip finds nothing), and the
  per-topic table is missing or empty.
\<close>

definition plainTranscript :: "session \<Rightarrow> bool" where
  "plainTranscript s = list_all (\<lambda>m. getProp m ''metadata'' = JUndefined) (messages s)"

definition noTopicCounters :: "session \<Rightarrow> bool" where
  "noTopicCounters s =
     (case skipsPerTopic (metrics s) of None \<Rightarrow> True | Some table \<Rightarrow> table = [])"

definition cleanSession :: "session option \<Rightarrow> bool" where
  "cleanSession entry =
     (case entry of None \<Rightarrow> True | Some s \<Rightarrow> plainTranscript s \<and> noTopicCounters s)"

text \<open>
  The states the three handlers can produce from an empty registry, whatever the
  requests, the clock, the generated ids and the outcomes of the external calls.
\<close>

inductive reachable :: "state \<Rightarrow> bool" where
  boot: "reachable \<lparr>activeSessions = Map.empty, interviewsFile = saved\<rparr>"
| started:
    "reachable st \<Longrightarrow>
     routeStart now newId cId cName selected tops pers r answer st = Some (st', resp) \<Longrightarrow>
     reachable st'"
| responded: "reachable st \<Longrightarrow> reachable (fst (routeRespond now req answer st))"
| ended: "reachable st \<Longrightarrow> reachable (fst (routeEnd now reqSessionId answer writeOk st))"

section \<open>Scenarios\<close>

text \<open>
  Concrete runs used below. A session is started on an empty registry; the model's
  first question names a topic by an object with an id and a name.
\<close>

definition emptyState :: state where
  "emptyState = \<lparr>activeSessions = Map.empty, interviewsFile = None\<rparr>"

definition topicArrays :: jsv where
  "topicArrays = JObj [(''id'', JStr ''t1''), (''name'', JStr ''Arrays'')]"

definition firstQuestion :: jsv where
  "firstQuestion = JObj [(''message'', JStr ''Q1''), (''currentTopic'', topicArrays)]"

definition nextQuestion :: jsv where
  "nextQuestion =
     JObj [(''message'', JStr ''Q2''), (''currentTopic'', topicArrays),
           (''assessmentOfLastAnswer'', JStr ''good''), (''isProbing'', JBool False)]"

definition startedState :: state where
  "startedState =
     (case routeStart 0 ''s1'' (JStr ''c1'') (JStr ''Course'') (JStr ''random'') (JArr []) JNull
             None (Some firstQuestion) emptyState of
        Some (st, resp) \<Rightarrow> st
      | None \<Rightarrow> emptyState)"

definition skipRequest :: respondRequest where
  "skipRequest =
     \<lparr>requestSessionId = JStr ''s1'', requestMessage = JStr ''skip'', requestSkipped = JBool True\<rparr>"

definition answerRequest :: respondRequest where
  "answerRequest =
     \<lparr>requestSessionId = JStr ''s1'', requestMessage = JStr ''A1'', requestSkipped = JBool False\<rparr>"

text \<open>The state after one, two and three skipped turns, each answered by the model.\<close>

definition skippedOnce :: state where
  "skippedOnce = fst (routeRespond 1000 skipRequest (Some nextQuestion) startedState)"

definition skippedTwice :: state where
  "skippedTwice = fst (routeRespond 2000 skipRequest (Some nextQuestion) skippedOnce)"

definition skippedThrice :: state where
  "skippedThrice = fst (routeRespond 3000 skipRequest (Some nextQuestion) skippedTwice)"

text \<open>A session as the interview file may hold it from an earlier run.\<close>

definition savedSession :: session where
  "savedSession =
     \<lparr>sessionId = ''s0'', courseId = JStr ''c1'', courseName = JStr ''Course'',
      selectedTopics = JStr ''random'', topics = JArr [], persona = JNull, targetRole = None,
      difficultyTracker = \<lparr>currentLevel = 2, recentAssessments = [], adjustmentHistory = []\<rparr>,
      metrics = \<lparr>questionCount = 1, skippedCount = 0, skipsPerTopic = None,
                 sessionDuration = None\<rparr>,
      startTime = 0, endTime = Some 10, messages = [], sessionSummary = None\<rparr>"

text \<open>
  A role with the level 0 and a base level, and a reply of the model whose label is
  an object with a \<^verbatim>\<open>toString\<close> property.
\<close>

definition levelZeroRole :: role where
  "levelZeroRole =
     \<lparr>roleId = JStr ''r0'', roleName = JStr ''Engineer'', level = Some 0,
      baseLevel = Some ''senior'', roleType = Some ''generic'',
      expectations = JNull, focusTopics = JNull\<rparr>"

definition oddLabel :: jsv where
  "oddLabel = JObj [(''toString'', JNum 1)]"

definition oddReply :: jsv where
  "oddReply =
     JObj [(''message'', JStr ''Q2''), (''currentTopic'', topicArrays),
           (''assessmentOfLastAnswer'', oddLabel), (''isProbing'', JBool False)]"

section \<open>Properties of the difficulty tracker\<close>

lemma pushAssessment_level: "currentLevel (pushAssessment a t) = currentLevel t"
  by (simp add: pushAssessment_def Let_def)

lemma pushAssessment_length:
  "length (recentAssessments t) \<le> 3 \<Longrightarrow> length (recentAssessments (pushAssessment a t)) \<le> 3"
  by (simp add: pushAssessment_def Let_def)

lemma updateTracker_inv: "trackerInv t \<Longrightarrow> trackerInv (updateTracker now a t)"
  by (auto simp: trackerInv_def updateTracker_def Let_def pushAssessment_length
      pushAssessment_level split: option.splits prod.splits)

lemma updateTracker_adjusts_clears:
  "adjusts a t \<Longrightarrow> recentAssessments (updateTracker now a t) = []"
  by (auto simp: adjusts_def updateTracker_def Let_def split: option.splits prod.splits)

lemma consumeAll_snoc:
  "consumeAll t (calls @ [(now, a)]) = updateTracker now a (consumeAll t calls)"
  by (simp add: consumeAll_def)

lemma consumeAll_inv: "trackerInv t \<Longrightarrow> trackerInv (consumeAll t calls)"
proof (induction calls rule: rev_induct)
  case Nil
  then show ?case by (simp add: consumeAll_def)
next
  case (snoc c calls)
  obtain now a where c: "c = (now, a)" by (cases c)
  from snoc show ?case by (simp add: c consumeAll_snoc updateTracker_inv)
qed

text \<open>
  Claim C1. A tracker that starts with its level in 1..4 and an empty window is run
  through any sequence of calls with valid labels. After every prefix of the sequence
  the level is in 1..4 and the window holds at most three labels, and whenever the
  next call of the sequence performs an adjustment, the window is empty right after
  that call.
\<close>

theorem tracker_invariant:
  assumes "1 \<le> currentLevel t0" and "currentLevel t0 \<le> 4" and "recentAssessments t0 = []"
    and "\<forall>c \<in> set calls. snd c \<in> set validAssessments"
  shows "\<forall>n. n \<le> length calls \<longrightarrow>
           (1 \<le> currentLevel (consumeAll t0 (take n calls)) \<and>
            currentLevel (consumeAll t0 (take n calls)) \<le> 4 \<and>
            length (recentAssessments (consumeAll t0 (take n calls))) \<le> 3) \<and>
           (\<forall>now a. n < length calls \<and> calls ! n = (now, a) \<and>
                adjusts a (consumeAll t0 (take n calls)) \<longrightarrow>
                recentAssessments (consumeAll t0 (take (Suc n) calls)) = [])"
proof (intro allI impI conjI)
  fix n
  have inv0: "trackerInv t0" using assms by (simp add: trackerInv_def)
  have "trackerInv (consumeAll t0 (take n calls))" by (rule consumeAll_inv [OF inv0])
  then show "1 \<le> currentLevel (consumeAll t0 (take n calls))"
    and "currentLevel (consumeAll t0 (take n calls)) \<le> 4"
    and "length (recentAssessments (consumeAll t0 (take n calls))) \<le> 3"
    by (simp_all add: trackerInv_def)
next
  fix n now a
  assume h: "n < length calls \<and> calls ! n = (now, a) \<and> adjusts a (consumeAll t0 (take n calls))"
  then have "take (Suc n) calls = take n calls @ [(now, a)]"
    by (metis take_Suc_conv_app_nth)
  then show "recentAssessments (consumeAll t0 (take (Suc n) calls)) = []"
    using h by (simp add: consumeAll_snoc updateTracker_adjusts_clears)
qed

theorem tracker_invariant_witness:
  "adjusts (JStr ''excellent'')
     (consumeAll \<lparr>currentLevel = 1, recentAssessments = [], adjustmentHistory = []\<rparr>
        [(10, JStr ''excellent'')]) \<and>
   currentLevel (consumeAll \<lparr>currentLevel = 1, recentAssessments = [], adjustmentHistory = []\<rparr>
        [(10, JStr ''excellent''), (20, JStr ''excellent'')]) = 2 \<and>
   recentAssessments (consumeAll \<lparr>currentLevel = 1, recentAssessments = [], adjustmentHistory = []\<rparr>
        [(10, JStr ''excellent''), (20, JStr ''excellent'')]) = []"
proof -
  let ?t0 = "\<lparr>currentLevel = 1, recentAssessments = [], adjustmentHistory = []\<rparr>"
  let ?calls = "[(10::int, JStr ''excellent''), (20, JStr ''excellent'')]"
  have adj: "adjusts (JStr ''excellent'') (consumeAll ?t0 [(10, JStr ''excellent'')])"
    by (simp add: adjusts_def consumeAll_def updateTracker_def pushAssessment_def
        checkDifficultyAdjustment_def validAssessments_def Let_def)
  have lvl: "currentLevel (consumeAll ?t0 ?calls) = 2"
    by (simp add: consumeAll_def updateTracker_def pushAssessment_def
        checkDifficultyAdjustment_def validAssessments_def Let_def)
  have valid: "\<forall>c \<in> set ?calls. snd c \<in> set validAssessments"
    by (simp add: validAssessments_def)
  from tracker_invariant [of ?t0 ?calls, OF _ _ _ valid, rule_format, of 1]
  have "recentAssessments (consumeAll ?t0 (take (Suc 1) ?calls)) = []"
    using adj by simp
  then show ?thesis using adj lvl by simp
qed





lemma counts_le_length:
  "countLabel ''excellent'' w + countLabel ''brief'' w + countLabel ''partial'' w \<le> length w"
  by (induction w) (auto simp: countLabel_def)

text \<open>
  Claim C9 as stated fails: a window of at most three labels never holds two
  \<open>excellent\<close> together with two \<open>brief\<close> or one \<open>brief\<close> and one
  \<open>partial\<close>, so the two rules never compete on a window the tracker can hold.
\<close>

theorem rules_never_meet:
  "\<not> (\<exists>w. length w \<le> 3 \<and> 2 \<le> countLabel ''excellent'' w \<and>
        (2 \<le> countLabel ''brief'' w \<or> 2 \<le> countLabel ''brief'' w + countLabel ''partial'' w))"
proof
  assume "\<exists>w. length w \<le> 3 \<and> 2 \<le> countLabel ''excellent'' w \<and>
        (2 \<le> countLabel ''brief'' w \<or> 2 \<le> countLabel ''brief'' w + countLabel ''partial'' w)"
  then obtain w where "length w \<le> 3" "2 \<le> countLabel ''excellent'' w"
     "2 \<le> countLabel ''brief'' w \<or> 2 \<le> countLabel ''brief'' w + countLabel ''partial'' w" by blast
  then show False using counts_le_length [of w] by arith
qed

text \<open>
  Claim C9, amended. No window of at most three labels satisfies the increase and the
  decrease condition together; and whatever the window (also a longer one), when both
  conditions hold and the level is below 4, the check answers the increase.
\<close>

theorem increase_wins:
  "(\<forall>w. length w \<le> 3 \<longrightarrow>
      \<not> (2 \<le> countLabel ''excellent'' w \<and>
         (2 \<le> countLabel ''brief'' w \<or> 2 \<le> countLabel ''brief'' w + countLabel ''partial'' w))) \<and>
   (\<forall>t::difficultyTracker. 2 \<le> countLabel ''excellent'' (recentAssessments t) \<and>
        (2 \<le> countLabel ''brief'' (recentAssessments t) \<or>
         2 \<le> countLabel ''brief'' (recentAssessments t) + countLabel ''partial'' (recentAssessments t)) \<and>
        currentLevel t < 4 \<longrightarrow>
        checkDifficultyAdjustment t = Some (1, increaseReason))"
proof (intro conjI allI impI)
  fix w :: "jsv list" assume "length w \<le> 3"
  then show "\<not> (2 \<le> countLabel ''excellent'' w \<and>
         (2 \<le> countLabel ''brief'' w \<or> 2 \<le> countLabel ''brief'' w + countLabel ''partial'' w))"
    using counts_le_length [of w] by arith
next
  fix t :: difficultyTracker
  assume h: "2 \<le> countLabel ''excellent'' (recentAssessments t) \<and>
        (2 \<le> countLabel ''brief'' (recentAssessments t) \<or>
         2 \<le> countLabel ''brief'' (recentAssessments t) + countLabel ''partial'' (recentAssessments t)) \<and>
        currentLevel t < 4"
  then have "2 \<le> length (recentAssessments t)"
    using counts_le_length [of "recentAssessments t"] by arith
  with h show "checkDifficultyAdjustment t = Some (1, increaseReason)"
    by (simp add: checkDifficultyAdjustment_def countLabel_def increaseReason_def Let_def)
qed

theorem increase_wins_witness:
  "countLabel ''excellent'' [JStr ''excellent'', JStr ''excellent'', JStr ''brief''] = 2 \<and>
   countLabel ''brief'' [JStr ''excellent'', JStr ''excellent'', JStr ''brief''] = 1 \<and>
   countLabel ''partial'' [JStr ''excellent'', JStr ''excellent'', JStr ''brief''] = 0 \<and>
   checkDifficultyAdjustment
     \<lparr>currentLevel = 2,
      recentAssessments = [JStr ''excellent'', JStr ''brief'', JStr ''excellent'', JStr ''brief''],
      adjustmentHistory = []\<rparr> = Some (1, increaseReason)"
proof -
  let ?t = "\<lparr>currentLevel = 2,
      recentAssessments = [JStr ''excellent'', JStr ''brief'', JStr ''excellent'', JStr ''brief''],
      adjustmentHistory = []\<rparr>"
  have c: "countLabel ''excellent'' [JStr ''excellent'', JStr ''excellent'', JStr ''brief''] = 2"
    "countLabel ''brief'' [JStr ''excellent'', JStr ''excellent'', JStr ''brief''] = 1"
    "countLabel ''partial'' [JStr ''excellent'', JStr ''excellent'', JStr ''brief''] = 0"
    by (simp_all add: countLabel_def)
  have pre: "2 \<le> countLabel ''excellent'' (recentAssessments ?t) \<and>
        (2 \<le> countLabel ''brief'' (recentAssessments ?t) \<or>
         2 \<le> countLabel ''brief'' (recentAssessments ?t) + countLabel ''partial'' (recentAssessments ?t)) \<and>
        currentLevel ?t < 4"
    by (simp add: countLabel_def)
  from increase_wins have "checkDifficultyAdjustment ?t = Some (1, increaseReason)"
    using pre by blast
  with c show ?thesis by simp
qed

section \<open>Labels outside the four recognised values\<close>

text \<open>
  Claim C6 on the code. A label outside the four recognised values never changes a
  tracker, but \<^verbatim>\<open>updateDifficultyAssessment\<close> does not always return for it: the
  warning it prints converts the label to a string, and where that conversion throws
  (and the session is known) the call raises a \<^verbatim>\<open>TypeError\<close> instead of returning.
  For every other label outside the four the registry comes back as it was.
\<close>

theorem invalid_label_outcome:
  assumes "label \<notin> set validAssessments"
  shows "updateDifficultyAssessment now sid label reg =
           (if reg sid \<noteq> None \<and> stringifyThrows label then Inl TypeError else Inr reg) \<and>
         updateTracker now label t = t"
proof
  show "updateDifficultyAssessment now sid label reg =
           (if reg sid \<noteq> None \<and> stringifyThrows label then Inl TypeError else Inr reg)"
  proof (cases "reg sid")
    case None
    then show ?thesis by (simp add: updateDifficultyAssessment_def)
  next
    case (Some s)
    have "updateTracker now label (difficultyTracker s) = difficultyTracker s"
      using assms by (simp add: updateTracker_def)
    then have "reg(sid \<mapsto> s\<lparr>difficultyTracker :=
        updateTracker now label (difficultyTracker s)\<rparr>) = reg"
      using Some by (simp add: map_upd_triv)
    then show ?thesis using Some assms by (simp add: updateDifficultyAssessment_def)
  qed
  show "updateTracker now label t = t"
    using assms by (simp add: updateTracker_def)
qed

text \<open>The scenarios, evaluated.\<close>

lemmas scenario_defs = emptyState_def topicArrays_def firstQuestion_def nextQuestion_def
  skipRequest_def answerRequest_def

lemmas storage_defs = createInterviewSession_def getActiveSession_def addMessageToSession_def
  updateDifficultyAssessment_def getDifficultyContext_def incrementQuestionCount_def
  incrementSkippedCount_def countSkip_def getMaxTopicSkips_def getSessionMetrics_def
  lastInterviewerMsg_def currentTopicId_def currentTopicName_def optChain_def orElse_def
  spread_def MAX_SKIPS_BEFORE_END_def levelNames_def initialLevel_def objectEntries_def

lemma startedState_eq:
  "startedState =
     \<lparr>activeSessions = [''s1'' \<mapsto>
        \<lparr>sessionId = ''s1'', courseId = JStr ''c1'', courseName = JStr ''Course'',
         selectedTopics = JStr ''random'', topics = JArr [], persona = JNull, targetRole = None,
         difficultyTracker = \<lparr>currentLevel = 2, recentAssessments = [], adjustmentHistory = []\<rparr>,
         metrics = \<lparr>questionCount = 1, skippedCount = 0, skipsPerTopic = None,
                    sessionDuration = None\<rparr>,
         startTime = 0, endTime = None,
         messages = [JObj [(''role'', JStr ''interviewer''), (''content'', JStr ''Q1''),
                           (''timestamp'', JNum 0), (''currentTopic'', topicArrays)]],
         sessionSummary = None\<rparr>],
      interviewsFile = None\<rparr>"
  by (simp add: startedState_def routeStart_def Let_def storage_defs firstQuestion_def
      emptyState_def topicArrays_def)

lemma startedState_active:
  "activeSessions startedState ''s1'' = Some
        \<lparr>sessionId = ''s1'', courseId = JStr ''c1'', courseName = JStr ''Course'',
         selectedTopics = JStr ''random'', topics = JArr [], persona = JNull, targetRole = None,
         difficultyTracker = \<lparr>currentLevel = 2, recentAssessments = [], adjustmentHistory = []\<rparr>,
         metrics = \<lparr>questionCount = 1, skippedCount = 0, skipsPerTopic = None,
                    sessionDuration = None\<rparr>,
         startTime = 0, endTime = None,
         messages = [JObj [(''role'', JStr ''interviewer''), (''content'', JStr ''Q1''),
                           (''timestamp'', JNum 0), (''currentTopic'', topicArrays)]],
         sessionSummary = None\<rparr>"
  by (simp add: startedState_eq)


theorem invalid_label_outcome_witness:
  "oddLabel \<notin> set validAssessments \<and>
   stringifyThrows oddLabel \<and>
   updateDifficultyAssessment 1000 ''s1'' oddLabel (activeSessions startedState) = Inl TypeError \<and>
   snd (routeRespond 1000 answerRequest (Some oddReply) startedState) =
     Status500 ''Failed to get response'' \<and>
   JStr ''great'' \<notin> set validAssessments \<and>
   updateDifficultyAssessment 1000 ''s1'' (JStr ''great'') (activeSessions startedState) =
     Inr (activeSessions startedState)"
proof -
  have a: "oddLabel \<notin> set validAssessments" and b: "JStr ''great'' \<notin> set validAssessments"
    by (simp_all add: validAssessments_def oddLabel_def)
  have c: "stringifyThrows oddLabel" and d: "\<not> stringifyThrows (JStr ''great'')"
    by (simp_all add: oddLabel_def)
  have e: "activeSessions startedState ''s1'' \<noteq> None"
    by (simp add: startedState_active)
  have f: "snd (routeRespond 1000 answerRequest (Some oddReply) startedState) =
     Status500 ''Failed to get response''"
    by (simp add: startedState_eq routeRespond_def Let_def storage_defs scenario_defs
        oddReply_def oddLabel_def validAssessments_def)
  from invalid_label_outcome [OF a, of 1000 "''s1''" "activeSessions startedState"] c e
  have g: "updateDifficultyAssessment 1000 ''s1'' oddLabel (activeSessions startedState) =
     Inl TypeError"
    by simp
  from invalid_label_outcome [OF b, of 1000 "''s1''" "activeSessions startedState"] d
  have h: "updateDifficultyAssessment 1000 ''s1'' (JStr ''great'') (activeSessions startedState) =
     Inr (activeSessions startedState)"
    by simp
  from a b c f g h show ?thesis by blast
qed

section \<open>The initial level\<close>

lemma initialLevel_amended:
  assumes "\<forall>ro b. r = Some ro \<and> (level ro = None \<or> level ro = Some 0) \<and> baseLevel ro = Some b
             \<longrightarrow> b \<notin> set objectPrototypeMembers"
  shows "initialLevel r = Level (amendedInitialLevel r)"
proof (cases r)
  case None
  then show ?thesis by (simp add: initialLevel_def amendedInitialLevel_def)
next
  case (Some ro)
  show ?thesis
  proof (cases "case level ro of Some n \<Rightarrow> n \<noteq> 0 | None \<Rightarrow> False")
    case True
    then show ?thesis
      using Some by (auto simp: initialLevel_def amendedInitialLevel_def split: option.splits)
  next
    case False
    then have absent: "level ro = None \<or> level ro = Some 0"
      by (auto split: option.splits)
    have base: "baseLevelValue ro =
        Level (case baseLevel ro of
                 None \<Rightarrow> 2
               | Some b \<Rightarrow>
                   if b = ''junior'' then 1
                   else if b = ''mid'' then 2
                   else if b = ''senior'' then 3
                   else if b = ''lead'' then 4
                   else 2)"
    proof (cases "baseLevel ro")
      case None
      then show ?thesis by (simp add: baseLevelValue_def)
    next
      case (Some b)
      with assms absent \<open>r = Some ro\<close> have "b \<notin> set objectPrototypeMembers" by blast
      then show ?thesis
        using Some by (simp add: baseLevelValue_def levelMap_def truthyLevel_def)
    qed
    from absent show ?thesis
      using Some base
      by (auto simp: initialLevel_def amendedInitialLevel_def split: option.splits)
  qed
qed

text \<open>
  Claim C8 as stated fails for a role whose numeric level is present and 0: the source
  tests \<^verbatim>\<open>role.level\<close> by truthiness and goes on to the base level, so the tracker
  and the Start response start at 3 for the base level \<open>senior\<close>, not at the level 0
  of the role.
\<close>

theorem level_zero_is_absent:
  "level levelZeroRole = Some 0 \<and>
   specInitialLevel (Some levelZeroRole) = 0 \<and>
   map_option (\<lambda>reg. map_option (currentLevel \<circ> difficultyTracker) (reg ''s1''))
     (createInterviewSession 0 ''s1'' (JStr ''c1'') (JStr ''Course'') (JStr ''random'') (JArr [])
        JNull (Some levelZeroRole) Map.empty) = Some (Some 3) \<and>
   (case routeStart 0 ''s1'' (JStr ''c1'') (JStr ''Course'') (JStr ''random'') (JArr []) JNull
           (Some levelZeroRole) (Some firstQuestion) emptyState of
      Some (st, StartJson resp) \<Rightarrow> startDifficultyLevel resp
    | _ \<Rightarrow> 0) = 3"
  by (simp add: levelZeroRole_def specInitialLevel_def createInterviewSession_def
      initialLevel_def baseLevelValue_def levelMap_def truthyLevel_def routeStart_def Let_def
      getDifficultyContext_def firstQuestion_def emptyState_def)

text \<open>
  Claim C8, amended. For a role whose base level, where the base level is consulted
  (the level is absent or 0), does not name a member of \<^verbatim>\<open>Object.prototype\<close>: the
  created session starts its tracker, with an empty window and an empty history, at the
  role's numeric level when that is present and not 0, otherwise at the base level
  mapped by junior 1, mid 2, senior 3, lead 4 (2 for any other string), and at 2
  without a role; and a Start response reports that level.
\<close>

theorem initial_difficulty:
  assumes "\<forall>ro b. r = Some ro \<and> (level ro = None \<or> level ro = Some 0) \<and> baseLevel ro = Some b
             \<longrightarrow> b \<notin> set objectPrototypeMembers"
  shows "(\<exists>reg' s.
            createInterviewSession now newId cId cName selected tops pers r reg = Some reg' \<and>
            reg' newId = Some s \<and>
            currentLevel (difficultyTracker s) = amendedInitialLevel r \<and>
            recentAssessments (difficultyTracker s) = [] \<and>
            adjustmentHistory (difficultyTracker s) = []) \<and>
         (\<forall>answer st' resp.
            routeStart now newId cId cName selected tops pers r answer st =
              Some (st', StartJson resp) \<longrightarrow>
            startDifficultyLevel resp = amendedInitialLevel r)"
proof (intro conjI allI impI)
  show "\<exists>reg' s.
            createInterviewSession now newId cId cName selected tops pers r reg = Some reg' \<and>
            reg' newId = Some s \<and>
            currentLevel (difficultyTracker s) = amendedInitialLevel r \<and>
            recentAssessments (difficultyTracker s) = [] \<and>
            adjustmentHistory (difficultyTracker s) = []"
    using initialLevel_amended [OF assms] by (simp add: createInterviewSession_def)
next
  fix answer st' resp
  assume "routeStart now newId cId cName selected tops pers r answer st =
            Some (st', StartJson resp)"
  then show "startDifficultyLevel resp = amendedInitialLevel r"
    using initialLevel_amended [OF assms]
    by (auto simp: routeStart_def Let_def getDifficultyContext_def createInterviewSession_def
        split: option.splits if_splits)
qed

theorem initial_difficulty_witness:
  "amendedInitialLevel (Some levelZeroRole) = 3 \<and>
   (\<exists>st' resp.
      routeStart 0 ''s1'' (JStr ''c1'') (JStr ''Course'') (JStr ''random'') (JArr []) JNull
        (Some levelZeroRole) (Some firstQuestion) emptyState = Some (st', StartJson resp) \<and>
      startDifficultyLevel resp = 3)"
proof -
  let ?run = "routeStart 0 ''s1'' (JStr ''c1'') (JStr ''Course'') (JStr ''random'') (JArr []) JNull
        (Some levelZeroRole) (Some firstQuestion) emptyState"
  have hyp: "\<forall>ro b. Some levelZeroRole = Some ro \<and> (level ro = None \<or> level ro = Some 0) \<and>
               baseLevel ro = Some b \<longrightarrow> b \<notin> set objectPrototypeMembers"
    by (auto simp: levelZeroRole_def objectPrototypeMembers_def)
  have lvl: "amendedInitialLevel (Some levelZeroRole) = 3"
    by (simp add: amendedInitialLevel_def levelZeroRole_def)
  have "\<exists>st' resp. ?run = Some (st', StartJson resp)"
    by (simp add: routeStart_def Let_def createInterviewSession_def initialLevel_def
        baseLevelValue_def levelMap_def truthyLevel_def levelZeroRole_def firstQuestion_def)
  then obtain st' resp where run: "?run = Some (st', StartJson resp)" by blast
  from initial_difficulty [OF hyp, of 0 "''s1''" "JStr ''c1''" "JStr ''Course''" "JStr ''random''"
      "JArr []" JNull Map.empty emptyState] run
  have "startDifficultyLevel resp = amendedInitialLevel (Some levelZeroRole)" by blast
  with lvl run show ?thesis by auto
qed

section \<open>A Respond turn whose generation fails\<close>

lemma addMessage_user:
  "reg sid = Some s \<Longrightarrow>
   addMessageToSession now sid ''user'' msg [(''skipped'', JBool b)] reg =
     reg(sid \<mapsto> s\<lparr>messages := messages s @ [userMessage now msg b]\<rparr>)"
  by (simp add: addMessageToSession_def spread_def userMessage_def)

lemma countSkip_counts:
  "skippedCount (countSkip tid m) = skippedCount m + 1"
  "questionCount (countSkip tid m) = questionCount m"
  by (simp_all add: countSkip_def Let_def)

lemma incrementSkippedCount_found:
  "reg sid = Some s \<Longrightarrow>
   incrementSkippedCount sid tid reg = reg(sid \<mapsto> s\<lparr>metrics := countSkip tid (metrics s)\<rparr>)"
  by (simp add: incrementSkippedCount_def)

text \<open>
  Claim C3, amended. When the generation step of a Respond turn fails (it throws, or
  the model returns \<^verbatim>\<open>null\<close>), the handler answers 500 and the session is still
  active with its tracker and its question count as before; but the transcript has
  gained the user's message, and on a skipped turn the skip was counted. The registry
  is exactly what the skip counting and the append made of it, and the interview file
  is untouched.
\<close>

theorem failed_turn_state:
  assumes active: "activeSessions st sid = Some s" and sid: "sid \<noteq> []" and msg: "truthy msg"
    and failed: "answer = None \<or> answer = Some JNull"
    and run: "routeRespond now
                \<lparr>requestSessionId = JStr sid, requestMessage = msg, requestSkipped = sk\<rparr>
                answer st = (st', r)"
    and reached: "\<forall>signal. r \<noteq> AutoEndJson signal"
  shows "r = Status500 ''Failed to get response'' \<and>
         interviewsFile st' = interviewsFile st \<and>
         activeSessions st' =
           addMessageToSession now sid ''user'' msg [(''skipped'', JBool (truthy sk))]
             (if truthy sk then incrementSkippedCount sid (currentTopicId s) (activeSessions st)
              else activeSessions st) \<and>
         (\<exists>s'. activeSessions st' sid = Some s' \<and>
               difficultyTracker s' = difficultyTracker s \<and>
               questionCount (metrics s') = questionCount (metrics s) \<and>
               skippedCount (metrics s') = skippedCount (metrics s) + (if truthy sk then 1 else 0) \<and>
               messages s' = messages s @ [userMessage now msg (truthy sk)])"
proof -
  let ?reg1 = "if truthy sk then incrementSkippedCount sid (currentTopicId s) (activeSessions st)
               else activeSessions st"
  let ?reg2 = "addMessageToSession now sid ''user'' msg [(''skipped'', JBool (truthy sk))] ?reg1"
  have res: "r = Status500 ''Failed to get response'' \<and> st' = st\<lparr>activeSessions := ?reg2\<rparr>"
    using run reached active sid msg failed
    by (auto simp: routeRespond_def getActiveSession_def Let_def split: if_splits)
  have "\<exists>s'. ?reg2 sid = Some s' \<and>
               difficultyTracker s' = difficultyTracker s \<and>
               questionCount (metrics s') = questionCount (metrics s) \<and>
               skippedCount (metrics s') = skippedCount (metrics s) + (if truthy sk then 1 else 0) \<and>
               messages s' = messages s @ [userMessage now msg (truthy sk)]"
  proof (cases "truthy sk")
    case True
    then show ?thesis
      using active by (simp add: incrementSkippedCount_found addMessage_user countSkip_counts)
  next
    case False
    then show ?thesis using active by (simp add: addMessage_user)
  qed
  then show ?thesis using res by simp
qed

text \<open>
  Claim C3 as stated fails: after Start, an answered turn whose generation throws
  leaves the user's message in the transcript, and a skipped turn whose generation
  throws leaves the skip counted as well.
\<close>

theorem failed_turn_changes_session:
  "snd (routeRespond 1000 answerRequest None startedState) = Status500 ''Failed to get response'' \<and>
   map_option messages (activeSessions startedState ''s1'') =
     Some [JObj [(''role'', JStr ''interviewer''), (''content'', JStr ''Q1''),
                 (''timestamp'', JNum 0), (''currentTopic'', topicArrays)]] \<and>
   map_option messages (activeSessions (fst (routeRespond 1000 answerRequest None startedState)) ''s1'') =
     Some [JObj [(''role'', JStr ''interviewer''), (''content'', JStr ''Q1''),
                 (''timestamp'', JNum 0), (''currentTopic'', topicArrays)],
           userMessage 1000 (JStr ''A1'') False] \<and>
   snd (routeRespond 1000 skipRequest None startedState) = Status500 ''Failed to get response'' \<and>
   map_option (skippedCount \<circ> metrics) (activeSessions startedState ''s1'') = Some 0 \<and>
   map_option (skippedCount \<circ> metrics)
     (activeSessions (fst (routeRespond 1000 skipRequest None startedState)) ''s1'') = Some 1"
  by (simp add: startedState_eq routeRespond_def Let_def storage_defs scenario_defs userMessage_def)

theorem failed_turn_state_witness:
  "(\<forall>signal. snd (routeRespond 1000 skipRequest None startedState) \<noteq> AutoEndJson signal) \<and>
   snd (routeRespond 1000 skipRequest None startedState) = Status500 ''Failed to get response'' \<and>
   (\<exists>s'. activeSessions (fst (routeRespond 1000 skipRequest None startedState)) ''s1'' = Some s' \<and>
      difficultyTracker s' = \<lparr>currentLevel = 2, recentAssessments = [], adjustmentHistory = []\<rparr> \<and>
      questionCount (metrics s') = 1 \<and> skippedCount (metrics s') = 1 \<and>
      length (messages s') = 2)"
proof -
  let ?s = "\<lparr>sessionId = ''s1'', courseId = JStr ''c1'', courseName = JStr ''Course'',
         selectedTopics = JStr ''random'', topics = JArr [], persona = JNull, targetRole = None,
         difficultyTracker = \<lparr>currentLevel = 2, recentAssessments = [], adjustmentHistory = []\<rparr>,
         metrics = \<lparr>questionCount = 1, skippedCount = 0, skipsPerTopic = None,
                    sessionDuration = None\<rparr>,
         startTime = 0, endTime = None,
         messages = [JObj [(''role'', JStr ''interviewer''), (''content'', JStr ''Q1''),
                           (''timestamp'', JNum 0), (''currentTopic'', topicArrays)]],
         sessionSummary = None\<rparr>"
  let ?run = "routeRespond 1000 skipRequest None startedState"
  have active: "activeSessions startedState ''s1'' = Some ?s"
    by (simp add: startedState_eq)
  have run: "routeRespond 1000
      \<lparr>requestSessionId = JStr ''s1'', requestMessage = JStr ''skip'', requestSkipped = JBool True\<rparr>
      None startedState = (fst ?run, snd ?run)"
    by (simp add: skipRequest_def)
  have reached: "\<forall>signal. snd ?run \<noteq> AutoEndJson signal"
    by (simp add: startedState_eq routeRespond_def Let_def storage_defs scenario_defs)
  have p1: "''s1'' \<noteq> []" and p2: "truthy (JStr ''skip'')"
    and p3: "(None :: jsv option) = None \<or> (None :: jsv option) = Some JNull"
    by simp_all
  note t = failed_turn_state [OF active p1 p2 p3 run reached]
  from t have status: "snd ?run = Status500 ''Failed to get response''" by blast
  from t obtain s' where s': "activeSessions (fst ?run) ''s1'' = Some s'"
    "difficultyTracker s' = difficultyTracker ?s"
    "questionCount (metrics s') = questionCount (metrics ?s)"
    "skippedCount (metrics s') = skippedCount (metrics ?s) + (if truthy (JBool True) then 1 else 0)"
    "messages s' = messages ?s @ [userMessage 1000 (JStr ''skip'') (truthy (JBool True))]"
    by blast
  have "difficultyTracker s' = \<lparr>currentLevel = 2, recentAssessments = [], adjustmentHistory = []\<rparr>"
    "questionCount (metrics s') = 1" "skippedCount (metrics s') = 1" "length (messages s') = 2"
    using s'(2-5) by simp_all
  with s'(1) status reached show ?thesis by blast
qed

section \<open>The skip limit\<close>

text \<open>
  A session is started with a first question on topic \<open>t1\<close> and skipped three
  times. The topic lookup of a skip reads \<^verbatim>\<open>lastInterviewerMsg.metadata\<close>, which no
  transcript message has, so the topic id is \<^verbatim>\<open>null\<close>: the global counter reaches
  3, the per-topic table stays empty, and the third skip is answered by the next
  question.
\<close>

lemma topic_skips_never_counted:
  "map_option (skipsPerTopic \<circ> metrics) (activeSessions skippedThrice ''s1'') = Some (Some []) \<and>
   map_option (skippedCount \<circ> metrics) (activeSessions skippedThrice ''s1'') = Some 3 \<and>
   map_option currentTopicId (activeSessions skippedTwice ''s1'') = Some JNull \<and>
   snd (routeRespond 3000 skipRequest (Some nextQuestion) skippedTwice) =
     RespondJson \<lparr>respondMessage = JStr ''Q2'', respondTopic = topicArrays,
                  assessment = JStr ''good'', difficultyLevel = 2, difficultyName = ''Mid-Level'',
                  respondMetrics = Some \<lparr>questionCount = 4, skippedCount = 3, skipsPerTopic = None,
                    sessionDuration = Some \<lparr>minutes = 0, seconds = 3, formatted = ''0:03''\<rparr>\<rparr>\<rparr>"
  by (simp add: skippedThrice_def skippedTwice_def skippedOnce_def startedState_eq
      routeRespond_def Let_def storage_defs scenario_defs jsRem_def padStart2_def showInt_def)

lemma plain_currentTopicId:
  assumes "plainTranscript s"
  shows "currentTopicId s = JNull"
proof (cases "find (\<lambda>m. getProp m ''role'' = JStr ''interviewer'') (rev (messages s))")
  case None
  then show ?thesis
    by (simp add: currentTopicId_def lastInterviewerMsg_def optChain_def orElse_def)
next
  case (Some m)
  then have "m \<in> set (rev (messages s))"
    by (metis find_Some_iff nth_mem)
  then have "m \<in> set (messages s)" by simp
  with assms have "getProp m ''metadata'' = JUndefined"
    by (simp add: plainTranscript_def list_all_iff)
  then have "optChain m ''metadata'' = JUndefined"
    by (simp add: optChain_def)
  then show ?thesis
    using Some by (simp add: currentTopicId_def lastInterviewerMsg_def optChain_def orElse_def)
qed

lemma getMaxTopicSkips_clean:
  "cleanSession (reg sid) \<Longrightarrow> fst (getMaxTopicSkips sid reg) = 0"
  by (auto simp: getMaxTopicSkips_def objectEntries_def cleanSession_def noTopicCounters_def
      split: option.splits)

lemma clean_incrementQuestionCount:
  "cleanSession (reg x) \<Longrightarrow> cleanSession (incrementQuestionCount sid reg x)"
  by (auto simp: incrementQuestionCount_def cleanSession_def plainTranscript_def
      noTopicCounters_def split: option.splits)

lemma clean_updateDifficultyAssessment:
  "updateDifficultyAssessment now sid a reg = Inr reg' \<Longrightarrow> cleanSession (reg x) \<Longrightarrow>
   cleanSession (reg' x)"
  by (auto simp: updateDifficultyAssessment_def cleanSession_def plainTranscript_def
      noTopicCounters_def split: option.splits if_splits)

lemma clean_incrementSkippedCount:
  "cleanSession (reg x) \<Longrightarrow> cleanSession (incrementSkippedCount sid JNull reg x)"
  by (auto simp: incrementSkippedCount_def countSkip_def Let_def cleanSession_def
      plainTranscript_def noTopicCounters_def split: option.splits)

lemma clean_addMessage_user:
  "cleanSession (reg x) \<Longrightarrow>
   cleanSession (addMessageToSession now sid ''user'' msg [(''skipped'', b)] reg x)"
  by (auto simp: addMessageToSession_def spread_def cleanSession_def plainTranscript_def
      noTopicCounters_def split: option.splits)

lemma clean_addMessage_opening:
  "cleanSession (reg x) \<Longrightarrow>
   cleanSession (addMessageToSession now sid ''interviewer'' msg [(''currentTopic'', t)] reg x)"
  by (auto simp: addMessageToSession_def spread_def cleanSession_def plainTranscript_def
      noTopicCounters_def split: option.splits)

lemma clean_addMessage_interviewer:
  "cleanSession (reg x) \<Longrightarrow>
   cleanSession (addMessageToSession now sid ''interviewer'' msg
     [(''currentTopic'', t), (''assessmentOfLastAnswer'', a), (''isProbing'', p)] reg x)"
  by (auto simp: addMessageToSession_def spread_def cleanSession_def plainTranscript_def
      noTopicCounters_def split: option.splits)

lemma clean_createInterviewSession:
  "createInterviewSession now newId cId cName selected tops pers r reg = Some reg' \<Longrightarrow>
   cleanSession (reg x) \<Longrightarrow> cleanSession (reg' x)"
proof -
  assume created: "createInterviewSession now newId cId cName selected tops pers r reg = Some reg'"
    and clean: "cleanSession (reg x)"
  from created obtain s where s: "reg' = reg(newId \<mapsto> s)" "messages s = []"
    "skipsPerTopic (metrics s) = None"
    by (auto simp: createInterviewSession_def split: levelValue.splits)
  show "cleanSession (reg' x)"
  proof (cases "x = newId")
    case True
    then show ?thesis
      using s by (simp add: cleanSession_def plainTranscript_def noTopicCounters_def)
  next
    case False
    then show ?thesis using s(1) clean by simp
  qed
qed

lemmas clean_storage = clean_incrementQuestionCount
  clean_incrementSkippedCount clean_addMessage_user clean_addMessage_opening
  clean_addMessage_interviewer

lemma routeStart_clean:
  assumes "\<forall>x. cleanSession (activeSessions st x)"
    and "routeStart now newId cId cName selected tops pers r answer st = Some (st', resp)"
  shows "cleanSession (activeSessions st' x)"
proof -
  from assms(2) obtain reg1 where
    reg1: "createInterviewSession now newId cId cName selected tops pers r (activeSessions st) =
             Some reg1"
    by (auto simp: routeStart_def split: option.splits)
  have c1: "\<And>y. cleanSession (reg1 y)"
    using clean_createInterviewSession [OF reg1] assms(1) by blast
  show ?thesis
    using assms(2) reg1 c1
    by (auto simp: routeStart_def Let_def clean_storage split: option.splits if_splits)
qed

lemma routeRespond_clean:
  assumes "\<forall>x. cleanSession (activeSessions st x)"
  shows "cleanSession (activeSessions (fst (routeRespond now req answer st)) x) \<and>
         (\<forall>signal. snd (routeRespond now req answer st) \<noteq> AutoEndJson signal)"
proof (cases "\<not> truthy (requestSessionId req) \<or> \<not> truthy (requestMessage req)")
  case True
  then show ?thesis using assms by (auto simp: routeRespond_def)
next
  case ok: False
  show ?thesis
  proof (cases "case requestSessionId req of
                JStr sid \<Rightarrow> map_option (\<lambda>s. (sid, s)) (getActiveSession sid (activeSessions st))
              | _ \<Rightarrow> None")
    case None
    then show ?thesis using assms ok by (simp add: routeRespond_def)
  next
    case (Some found)
    obtain sid s where found: "found = (sid, s)" by (cases found)
    have active: "activeSessions st sid = Some s"
      using Some found
      by (auto simp: getActiveSession_def split: jsv.splits)
    have "cleanSession (Some s)" using assms active by (metis)
    then have topic: "currentTopicId s = JNull"
      by (simp add: cleanSession_def plain_currentTopicId)
    let ?reg1 = "if truthy (requestSkipped req)
                 then incrementSkippedCount sid JNull (activeSessions st)
                 else activeSessions st"
    have reg1: "\<And>y. cleanSession (?reg1 y)"
      using assms by (simp add: clean_storage)
    then have low: "fst (getMaxTopicSkips sid ?reg1) = 0"
      by (rule getMaxTopicSkips_clean)
    let ?reg2 = "addMessageToSession now sid ''user'' (requestMessage req)
                   [(''skipped'', JBool (truthy (requestSkipped req)))] ?reg1"
    have reg2: "\<And>y. cleanSession (?reg2 y)"
      using reg1 by (rule clean_addMessage_user)
    have reg3: "\<And>label reg3 y.
        updateDifficultyAssessment now sid label ?reg2 = Inr reg3 \<Longrightarrow> cleanSession (reg3 y)"
      using clean_updateDifficultyAssessment reg2 by blast
    show ?thesis
      using ok Some found topic reg1 low reg2 reg3
      by (auto simp: routeRespond_def Let_def MAX_SKIPS_BEFORE_END_def clean_storage
          split: option.splits sum.splits if_splits)
  qed
qed

lemma stampEnded_clean:
  "cleanSession (Some s) \<Longrightarrow>
   cleanSession (Some (stampEnded now (augmentSummary ans s (getSessionMetrics now2 sid reg)) s))"
  by (auto simp: cleanSession_def stampEnded_def augmentSummary_def getSessionMetrics_def Let_def
      plainTranscript_def noTopicCounters_def split: option.splits)

lemma routeEnd_clean:
  assumes "\<forall>x. cleanSession (activeSessions st x)"
  shows "cleanSession (activeSessions (fst (routeEnd now reqSessionId answer writeOk st)) x)"
proof (cases "case reqSessionId of
                JStr sid \<Rightarrow> map_option (\<lambda>s. (sid, s)) (getActiveSession sid (activeSessions st))
              | _ \<Rightarrow> None")
  case None
  then show ?thesis using assms by (simp add: routeEnd_def)
next
  case (Some found)
  obtain sid s where found: "found = (sid, s)" by (cases found)
  have active: "activeSessions st sid = Some s"
    using Some found by (auto simp: getActiveSession_def split: jsv.splits)
  have "cleanSession (Some s)" using assms active by metis
  note stamped = stampEnded_clean [OF this]
  show ?thesis
    using Some found active assms stamped
    by (auto simp: routeEnd_def endInterviewSession_def Let_def cleanSession_def
        split: option.splits)
qed

lemma reachable_clean: "reachable st \<Longrightarrow> \<forall>x. cleanSession (activeSessions st x)"
proof (induction rule: reachable.induct)
  case (boot saved)
  show ?case by (simp add: cleanSession_def)
next
  case (started st now newId cId cName selected tops pers r answer st' resp)
  then show ?case using routeStart_clean by blast
next
  case (responded st now req answer)
  then show ?case using routeRespond_clean by blast
next
  case (ended st now reqSessionId answer writeOk)
  then show ?case using routeEnd_clean by blast
qed

text \<open>
  Claim C4 on the code. In every state the handlers can reach, the topic lookup of a
  skip yields \<^verbatim>\<open>null\<close> for every session and no per-topic counter exists; hence no
  Respond turn, skipped or not, is answered by the auto-terminate signal. The per-topic
  counter the claim speaks of is never incremented, and the limit never fires.
\<close>

theorem skip_limit_never_fires:
  assumes "reachable st"
  shows "(\<forall>signal. snd (routeRespond now req answer st) \<noteq> AutoEndJson signal) \<and>
         (\<forall>sid s. activeSessions st sid = Some s \<longrightarrow>
            currentTopicId s = JNull \<and> noTopicCounters s)"
proof (intro conjI allI impI)
  fix signal
  show "snd (routeRespond now req answer st) \<noteq> AutoEndJson signal"
    using reachable_clean [OF assms] routeRespond_clean by blast
next
  fix sid s
  assume "activeSessions st sid = Some s"
  then have "cleanSession (Some s)"
    using reachable_clean [OF assms] by metis
  then show "currentTopicId s = JNull" and "noTopicCounters s"
    by (simp_all add: cleanSession_def plain_currentTopicId)
qed

lemma startedState_reachable: "reachable startedState"
proof -
  have "reachable emptyState"
    unfolding emptyState_def by (rule reachable.boot)
  moreover have "\<exists>resp. routeStart 0 ''s1'' (JStr ''c1'') (JStr ''Course'') (JStr ''random'')
      (JArr []) JNull None (Some firstQuestion) emptyState = Some (startedState, resp)"
    by (simp add: startedState_def routeStart_def Let_def storage_defs firstQuestion_def
        emptyState_def topicArrays_def)
  ultimately show ?thesis using reachable.started by blast
qed

theorem skip_limit_never_fires_witness:
  "reachable skippedTwice \<and>
   (\<forall>signal. snd (routeRespond 3000 skipRequest (Some nextQuestion) skippedTwice)
      \<noteq> AutoEndJson signal) \<and>
   map_option currentTopicId (activeSessions skippedTwice ''s1'') = Some JNull \<and>
   map_option (skippedCount \<circ> metrics) (activeSessions skippedThrice ''s1'') = Some 3 \<and>
   map_option (skipsPerTopic \<circ> metrics) (activeSessions skippedThrice ''s1'') = Some (Some [])"
proof -
  from startedState_reachable have "reachable skippedOnce"
    unfolding skippedOnce_def by (rule reachable.responded)
  then have r: "reachable skippedTwice"
    unfolding skippedTwice_def by (rule reachable.responded)
  from skip_limit_never_fires [OF r, of 3000 skipRequest "Some nextQuestion"]
  have "\<forall>signal. snd (routeRespond 3000 skipRequest (Some nextQuestion) skippedTwice)
      \<noteq> AutoEndJson signal"
    by blast
  with r topic_skips_never_counted show ?thesis by simp
qed

section \<open>The user message in the transcript\<close>

lemma respond_appends:
  assumes active: "activeSessions st sid = Some s" and sid: "sid \<noteq> []" and msg: "truthy msg"
    and run: "routeRespond now
                \<lparr>requestSessionId = JStr sid, requestMessage = msg, requestSkipped = sk\<rparr>
                answer st = (st', r)"
    and reached: "\<forall>signal. r \<noteq> AutoEndJson signal"
  shows "\<exists>s'. activeSessions st' sid = Some s' \<and>
              take (Suc (length (messages s))) (messages s') =
                messages s @ [userMessage now msg (truthy sk)]"
  using assms
  by (auto simp: routeRespond_def getActiveSession_def Let_def addMessageToSession_def
      incrementSkippedCount_def updateDifficultyAssessment_def incrementQuestionCount_def
      spread_def userMessage_def
      split: if_splits option.splits sum.splits)

text \<open>
  Claim C5. In every state the handlers can reach, a Respond turn on an active session
  appends the user's message directly after the transcript it found, whether the turn
  is skipped or not and whatever the generation step then does. No such turn yields
  the auto-terminate signal (the branch that would return before the append is never
  taken), so the turns the claim names are all covered.
\<close>

theorem user_message_appended:
  assumes reach: "reachable st"
    and active: "activeSessions st sid = Some s" and sid: "sid \<noteq> []" and msg: "truthy msg"
    and run: "routeRespond now
                \<lparr>requestSessionId = JStr sid, requestMessage = msg, requestSkipped = sk\<rparr>
                answer st = (st', r)"
  shows "(\<forall>signal. r \<noteq> AutoEndJson signal) \<and>
         (\<exists>s'. activeSessions st' sid = Some s' \<and>
               take (Suc (length (messages s))) (messages s') =
                 messages s @ [userMessage now msg (truthy sk)])"
proof -
  have "\<forall>signal. snd (routeRespond now
      \<lparr>requestSessionId = JStr sid, requestMessage = msg, requestSkipped = sk\<rparr> answer st)
      \<noteq> AutoEndJson signal"
    using reachable_clean [OF reach] routeRespond_clean by blast
  then have reached: "\<forall>signal. r \<noteq> AutoEndJson signal"
    using run by simp
  with respond_appends [OF active sid msg run] show ?thesis by blast
qed

theorem user_message_appended_witness:
  "reachable startedState \<and>
   (\<forall>signal. snd (routeRespond 1000 skipRequest (Some nextQuestion) startedState)
       \<noteq> AutoEndJson signal) \<and>
   (\<exists>s'. activeSessions (fst (routeRespond 1000 skipRequest (Some nextQuestion) startedState)) ''s1''
            = Some s' \<and>
         take 2 (messages s') =
           [JObj [(''role'', JStr ''interviewer''), (''content'', JStr ''Q1''),
                  (''timestamp'', JNum 0), (''currentTopic'', topicArrays)],
            userMessage 1000 (JStr ''skip'') True])"
proof -
  let ?run = "routeRespond 1000 skipRequest (Some nextQuestion) startedState"
  let ?s = "\<lparr>sessionId = ''s1'', courseId = JStr ''c1'', courseName = JStr ''Course'',
         selectedTopics = JStr ''random'', topics = JArr [], persona = JNull, targetRole = None,
         difficultyTracker = \<lparr>currentLevel = 2, recentAssessments = [], adjustmentHistory = []\<rparr>,
         metrics = \<lparr>questionCount = 1, skippedCount = 0, skipsPerTopic = None,
                    sessionDuration = None\<rparr>,
         startTime = 0, endTime = None,
         messages = [JObj [(''role'', JStr ''interviewer''), (''content'', JStr ''Q1''),
                           (''timestamp'', JNum 0), (''currentTopic'', topicArrays)]],
         sessionSummary = None\<rparr>"
  have p1: "''s1'' \<noteq> []" and p2: "truthy (JStr ''skip'')" by simp_all
  have run: "routeRespond 1000
      \<lparr>requestSessionId = JStr ''s1'', requestMessage = JStr ''skip'', requestSkipped = JBool True\<rparr>
      (Some nextQuestion) startedState = (fst ?run, snd ?run)"
    by (simp add: skipRequest_def)
  note t = user_message_appended [OF startedState_reachable startedState_active p1 p2 run]
  from t have e1: "\<forall>signal. snd ?run \<noteq> AutoEndJson signal" by blast
  from t obtain s' where s': "activeSessions (fst ?run) ''s1'' = Some s'"
     "take (Suc (length (messages ?s))) (messages s') =
                      messages ?s @ [userMessage 1000 (JStr ''skip'') (truthy (JBool True))]"
    by blast
  from s'(2) have "take 2 (messages s') =
           [JObj [(''role'', JStr ''interviewer''), (''content'', JStr ''Q1''),
                  (''timestamp'', JNum 0), (''currentTopic'', topicArrays)],
            userMessage 1000 (JStr ''skip'') True]"
    by (simp add: numeral_2_eq_2)
  with s'(1) e1 startedState_reachable show ?thesis by blast
qed

section \<open>Termination\<close>

lemma stampEnded_fields:
  "sessionId (stampEnded now sm s) = sessionId s"
  "endTime (stampEnded now sm s) = Some now"
  "sessionSummary (stampEnded now sm s) = Some sm"
  "messages (stampEnded now sm s) = messages s"
  by (simp_all add: stampEnded_def Let_def split: option.splits)

text \<open>
  Claim C10. A completed \<^verbatim>\<open>endInterviewSession\<close> writes the terminated session
  followed by the first 49 sessions of the file as it was: at most 50 sessions, the
  new one first, whatever came after the 49th dropped.
\<close>

theorem end_truncates_store:
  assumes "activeSessions st sid = Some s"
    and "endInterviewSession now sid sm True st = (st', r)"
  shows "r = Inr (Some (stampEnded now sm s)) \<and>
         endTime (stampEnded now sm s) = Some now \<and>
         sessionSummary (stampEnded now sm s) = Some sm \<and>
         interviewsFile st' = Some (stampEnded now sm s # take 49 (getInterviews st)) \<and>
         length (stampEnded now sm s # take 49 (getInterviews st)) \<le> 50 \<and>
         activeSessions st' = (activeSessions st)(sid := None)"
  using assms by (auto simp: endInterviewSession_def stampEnded_fields)

theorem end_truncates_store_witness:
  "\<exists>ended st'.
     endInterviewSession 5000 ''s1'' \<lparr>generated = JNum 1, attached = None\<rparr> True
       (startedState\<lparr>interviewsFile := Some (replicate 50 savedSession)\<rparr>) =
       (st', Inr (Some ended)) \<and>
     endTime ended = Some 5000 \<and>
     interviewsFile st' = Some (ended # replicate 49 savedSession) \<and>
     length (ended # replicate 49 savedSession) = 50"
proof -
  let ?st = "startedState\<lparr>interviewsFile := Some (replicate 50 savedSession)\<rparr>"
  let ?sm = "\<lparr>generated = JNum 1, attached = None\<rparr>"
  let ?run = "endInterviewSession 5000 ''s1'' ?sm True ?st"
  have active: "activeSessions ?st ''s1'' = activeSessions startedState ''s1''" by simp
  note active' = active [unfolded startedState_active]
  have run: "?run = (fst ?run, snd ?run)" by simp
  note t = end_truncates_store [OF active' run]
  let ?ended = "stampEnded 5000 ?sm (the (activeSessions startedState ''s1''))"
  have old: "getInterviews ?st = replicate 50 savedSession" by (simp add: getInterviews_def)
  from t have a: "snd ?run = Inr (Some ?ended)" and b: "endTime ?ended = Some 5000"
    and c: "interviewsFile (fst ?run) = Some (?ended # take 49 (getInterviews ?st))"
    by (simp_all add: startedState_active)
  from c old have c': "interviewsFile (fst ?run) = Some (?ended # replicate 49 savedSession)"
    by simp
  have d: "length (?ended # replicate 49 savedSession) = 50" by simp
  have "?run = (fst ?run, Inr (Some ?ended))" using a run by simp
  with b c' d show ?thesis by blast
qed

lemma routeEnd_unknown:
  "activeSessions st sid = None \<Longrightarrow>
   routeEnd now (JStr sid) answer writeOk st =
     (st, if sid = [] then Status400 ''Session ID is required''
          else Status404 ''Interview session not found or expired'')"
  by (simp add: routeEnd_def getActiveSession_def)

text \<open>
  Claim C7. A first End on an active session that completes answers with the summary,
  removes exactly that session from the registry and puts it, with its end time and
  summary set, at the head of the interview file; any later End on the same id is
  answered 404 and changes nothing.
\<close>

theorem end_twice:
  assumes active: "activeSessions st sid = Some s" and sid: "sid \<noteq> []"
    and ans: "ans \<noteq> JNull" "ans \<noteq> JUndefined"
    and run: "routeEnd now (JStr sid) (Some ans) True st = (st', r)"
  shows "(\<exists>sm. r = EndJson sm \<and>
            interviewsFile st' = Some (stampEnded now sm s # take 49 (getInterviews st)) \<and>
            endTime (stampEnded now sm s) = Some now \<and>
            sessionSummary (stampEnded now sm s) = Some sm) \<and>
         activeSessions st' = (activeSessions st)(sid := None) \<and>
         (\<forall>now2 answer2 writeOk2.
            routeEnd now2 (JStr sid) answer2 writeOk2 st' =
              (st', Status404 ''Interview session not found or expired''))"
proof -
  let ?sm = "augmentSummary ans s (getSessionMetrics now sid (activeSessions st))"
  have res: "r = EndJson ?sm"
    "st' = st\<lparr>interviewsFile := Some (take 50 (stampEnded now ?sm s # getInterviews st)),
              activeSessions := (activeSessions st)(sid := None)\<rparr>"
    using assms
    by (simp_all add: routeEnd_def getActiveSession_def endInterviewSession_def Let_def)
  have gone: "activeSessions st' sid = None" using res(2) by simp
  have second: "\<forall>now2 answer2 writeOk2.
            routeEnd now2 (JStr sid) answer2 writeOk2 st' =
              (st', Status404 ''Interview session not found or expired'')"
    using routeEnd_unknown [OF gone] sid by simp
  show ?thesis using res second by (simp add: stampEnded_fields)
qed

theorem end_twice_witness:
  "\<exists>st' sm.
     routeEnd 5000 (JStr ''s1'') (Some (JObj [(''score'', JNum 80)])) True startedState =
       (st', EndJson sm) \<and>
     activeSessions st' ''s1'' = None \<and>
     routeEnd 6000 (JStr ''s1'') (Some (JObj [(''score'', JNum 80)])) True st' =
       (st', Status404 ''Interview session not found or expired'')"
proof -
  let ?run = "routeEnd 5000 (JStr ''s1'') (Some (JObj [(''score'', JNum 80)])) True startedState"
  have p1: "''s1'' \<noteq> []" and p2: "JObj [(''score'', JNum 80)] \<noteq> JNull"
    and p3: "JObj [(''score'', JNum 80)] \<noteq> JUndefined" by simp_all
  have run: "?run = (fst ?run, snd ?run)" by simp
  note t = end_twice [OF startedState_active p1 p2 p3 run]
  from t obtain sm where sm: "snd ?run = EndJson sm" by blast
  from t have gone: "activeSessions (fst ?run) = (activeSessions startedState)(''s1'' := None)"
    by blast
  from t have second: "routeEnd 6000 (JStr ''s1'') (Some (JObj [(''score'', JNum 80)])) True (fst ?run) =
       (fst ?run, Status404 ''Interview session not found or expired'')"
    by blast
  have "?run = (fst ?run, EndJson sm)" using sm run by simp
  moreover have "activeSessions (fst ?run) ''s1'' = None" using gone by simp
  ultimately show ?thesis using second by blast
qed

end
